theory Spec2Isabelle
  imports Main "HOL-Library.AList"
begin

section \<open>The unified tracker (lmv-tracker.js, version 3.1.0)\<close>

text \<open>
  The model follows the last script of \<^verbatim>\<open>src/lmv-tracker.js\<close> (the unified tracker with
  reporting, consent gating and the Meta Pixel cookie). Module-level variables and the
  parts of the browser the script writes to are the fields of one state record that every
  function takes and returns. What the script only reads from the browser (clock, random
  source, location, cookie, network answers) is the \<open>host\<close> record. An exception is a
  branch of the model at the place where the source catches it. Console output
  (\<^verbatim>\<open>logDebug\<close>, \<^verbatim>\<open>console.warn\<close>) is not modelled, and neither is the \<^verbatim>\<open>debugMode\<close> switch,
  which only controls it.
\<close>

subsection \<open>JavaScript values and objects\<close>

text \<open>
  The values a tracking record holds once it went through \<^verbatim>\<open>JSON.stringify\<close> and
  \<^verbatim>\<open>JSON.parse\<close>: null, booleans, integral numbers (timestamps and counters) and strings.
  Nested objects, arrays and fractional numbers are outside the model. A number is a
  double: \<open>JNum n\<close> is the double whose value is the integer \<open>n\<close>, and a sum of two of them
  is the integer sum as long as it stays between \<open>- 2 ^ 53\<close> and \<open>2 ^ 53\<close>, where every
  integer is a double. A property read yields \<open>None\<close> where JavaScript yields
  \<^verbatim>\<open>undefined\<close>. Characters are code units below 256.
\<close>

datatype jsval = JNull | JBool bool | JNum int | JStr string

type_synonym jsobj = "(string \<times> jsval) list"

text \<open>Truthiness, as \<^verbatim>\<open>if (x)\<close>, \<^verbatim>\<open>!x\<close>, \<^verbatim>\<open>&&\<close> and \<^verbatim>\<open>||\<close> test it.\<close>

fun truthy :: "jsval option \<Rightarrow> bool" where
  "truthy None = False"
| "truthy (Some JNull) = False"
| "truthy (Some (JBool b)) = b"
| "truthy (Some (JNum n)) = (n \<noteq> 0)"
| "truthy (Some (JStr s)) = (s \<noteq> [])"

text \<open>
  An object is the list of its properties in insertion order. Writing a property keeps
  the place of a key that exists and appends a new key, as JavaScript does.
\<close>

definition get_prop :: "jsobj \<Rightarrow> string \<Rightarrow> jsval option" where
  "get_prop obj k = map_of obj k"

definition set_prop :: "string \<Rightarrow> jsval \<Rightarrow> jsobj \<Rightarrow> jsobj" where
  "set_prop k v obj = AList.update k v obj"

text \<open>
  \<^verbatim>\<open>{...target, ...src}\<close> and \<^verbatim>\<open>Object.assign(target, src)\<close>: the properties of \<open>src\<close> are
  written onto \<open>target\<close> one after the other, so a key of \<open>src\<close> replaces the value the
  target had for it.
\<close>

definition spread :: "jsobj \<Rightarrow> jsobj \<Rightarrow> jsobj" where
  "spread src target = fold (\<lambda>(k, v). set_prop k v) src target"

text \<open>\<^verbatim>\<open>String.prototype.trim\<close>, on the white space below code unit 256.\<close>

definition js_space :: "char \<Rightarrow> bool" where
  "js_space c = (c \<in> set [CHR 0x09, CHR 0x0A, CHR 0x0B, CHR 0x0C, CHR 0x0D, CHR 0x20, CHR 0xA0])"

definition trim :: "string \<Rightarrow> string" where
  "trim s = rev (dropWhile js_space (rev (dropWhile js_space s)))"

text \<open>\<^verbatim>\<open>s.split(c)\<close> for a one-character separator; the result is never empty.\<close>

fun split_on :: "char \<Rightarrow> string \<Rightarrow> string list" where
  "split_on c [] = [[]]"
| "split_on c (x # xs) =
     (if x = c then [] # split_on c xs
      else (case split_on c xs of
              [] \<Rightarrow> [[x]]
            | p # ps \<Rightarrow> (x # p) # ps))"

subsection \<open>Configuration, browser and tracker state\<close>

record config =
  apiBaseUrl :: string
  targetDomain :: string
  paymentDomain :: string
  sessionTimeout :: int
  enablePageViewTracking :: bool
  enableLinkDecoration :: bool
  enableFormPopulation :: bool
  requireConsent :: bool
  consentStorageKey :: string

definition default_config :: config where
  "default_config =
     \<lparr> apiBaseUrl = ''https://core.lamainverte.ca/api/v1'',
       targetDomain = ''app.lamainverte.ca'',
       paymentDomain = ''paiement.lamainverte.ca'',
       sessionTimeout = 30,
       enablePageViewTracking = True,
       enableLinkDecoration = True,
       enableFormPopulation = True,
       requireConsent = False,
       consentStorageKey = ''lmv_consent_given'' \<rparr>"

definition STORAGE_KEY :: string where
  "STORAGE_KEY = ''lmv_tracker''"

definition SESSION_TIMEOUT_MS :: "config \<Rightarrow> int" where
  "SESSION_TIMEOUT_MS cfg = sessionTimeout cfg * 60 * 1000"

definition UTM_FIELDS :: "string list" where
  "UTM_FIELDS = [''utm_source'', ''utm_medium'', ''utm_campaign'', ''utm_term'',
                 ''utm_content'', ''fbclid'', ''gclid'', ''fbp'']"

text \<open>
  \<open>Working\<close>: every \<^verbatim>\<open>localStorage\<close> call succeeds. \<open>QuotaExceeded\<close>: \<^verbatim>\<open>setItem\<close> throws, reads
  and removals succeed. \<open>Unavailable\<close>: every access throws.
\<close>

datatype storage_mode = Working | QuotaExceeded | Unavailable

text \<open>
  A \<^verbatim>\<open>fetch\<close> that was issued either rejects (\<open>NetworkError\<close>) or resolves to a response
  with its \<^verbatim>\<open>ok\<close> flag and whether \<^verbatim>\<open>response.json()\<close> resolves.
\<close>

datatype fetch_outcome = NetworkError | Response bool bool

text \<open>
  A parsed URL: the host name, the query as the list of pairs \<^verbatim>\<open>URLSearchParams\<close> holds,
  and everything Link Decorator never touches (scheme, port, path, fragment).
\<close>

record url =
  hostname :: string
  searchParams :: "(string \<times> string) list"
  url_other :: string

record link =
  href_attr :: string
  href_url :: "url option"

text \<open>
  \<open>href_attr\<close> is the text of the attribute, which the CSS selector reads; \<open>href_url\<close> is
  what \<^verbatim>\<open>new URL(link.href)\<close> yields, \<open>None\<close> when it throws.
\<close>

record element =
  el_id :: string
  tagName :: string
  el_type :: string
  el_value :: string
  el_options :: "(string \<times> string) list"

text \<open>
  A form control: \<open>el_type\<close> is its \<^verbatim>\<open>type\<close> property, \<open>el_options\<close> the pairs
  (\<^verbatim>\<open>value\<close>, \<^verbatim>\<open>textContent\<close>) of the options of a select.
\<close>

record host =
  now :: int
  random_uuid :: "string option"
  search_params :: "(string \<times> string) list option"
  location_pathname :: string
  location_search :: string
  document_title :: string
  document_cookie :: string
  document_referrer :: string
  user_agent :: string
  storage_mode :: storage_mode
  has_fetch :: bool
  session_fetch :: fetch_outcome
  event_fetch :: fetch_outcome
  has_MutationObserver :: bool
  string_to_number :: "string \<Rightarrow> int option"
  number_to_string :: "int \<Rightarrow> string"
  number_plus_one :: "int \<Rightarrow> int"
  url_to_string :: "url \<Rightarrow> string"
  assigned_value :: "element \<Rightarrow> string \<Rightarrow> string"

text \<open>
  \<^item> \<open>now\<close>: \<^verbatim>\<open>Date.now()\<close>; the readings taken during one call are one instant.
  \<^item> \<open>random_uuid\<close>: the identifier \<^verbatim>\<open>crypto.randomUUID()\<close> or the \<^verbatim>\<open>Math.random\<close> fallback
    produces, \<open>None\<close> when that code throws.
  \<^item> \<open>search_params\<close>: the pairs of \<^verbatim>\<open>new URLSearchParams(window.location.search)\<close>, \<open>None\<close>
    when the constructor throws.
  \<^item> \<open>has_fetch\<close>: whether \<^verbatim>\<open>fetch\<close> exists; \<open>session_fetch\<close> and \<open>event_fetch\<close> are the
    outcomes of the two requests when they are issued.
  \<^item> \<open>string_to_number\<close>, \<open>number_to_string\<close>, \<open>url_to_string\<close>: the runtime's conversion of
    a string to a number (\<open>None\<close> is NaN), of a number to a string, and \<^verbatim>\<open>URL.toString\<close>.
  \<^item> \<open>number_plus_one\<close>: the double \<^verbatim>\<open>n + 1\<close> for a number \<open>n\<close> outside the range where
    that sum is exact (from \<open>2 ^ 53\<close> on the double sum is rounded: \<^verbatim>\<open>2 ** 53 + 1\<close> is
    \<^verbatim>\<open>2 ** 53\<close>).
  \<^item> \<open>assigned_value\<close>: the value a control holds after a string was assigned to its
    \<^verbatim>\<open>value\<close> (a text input strips line breaks from it).
  These five are parameters: no result below depends on what they compute.
\<close>

subsection \<open>UTM Extractor\<close>

text \<open>
  The loop of \<^verbatim>\<open>extractUTMsFromURL\<close>: \<^verbatim>\<open>params.get(key)\<close> is the first value of the key or
  null; the value is kept when it and its trimmed form are non-empty.
\<close>

fun extract_loop :: "(string \<times> string) list \<Rightarrow> string list \<Rightarrow> jsobj \<Rightarrow> jsobj" where
  "extract_loop params [] data = data"
| "extract_loop params (key # keys) data =
     (case map_of params key of
        None \<Rightarrow> extract_loop params keys data
      | Some v \<Rightarrow>
          if v \<noteq> [] \<and> trim v \<noteq> []
          then extract_loop params keys (set_prop key (JStr (trim v)) data)
          else extract_loop params keys data)"

definition extractUTMsFromURL :: "host \<Rightarrow> jsobj" where
  "extractUTMsFromURL h =
     (case search_params h of
        None \<Rightarrow> []
      | Some params \<Rightarrow> extract_loop params UTM_FIELDS [])"

subsection \<open>Storage Adapter\<close>

text \<open>
  An item of \<^verbatim>\<open>localStorage\<close> is a string. \<open>Json entries\<close> is the text of a JSON object with
  these members in this order; \<open>Text s\<close> is any other string \<open>s\<close>: text that
  \<^verbatim>\<open>JSON.parse\<close> rejects or reads as something that is not a record (null, a number, a
  string, an array). \<^verbatim>\<open>JSON.parse\<close> keeps the last value of a repeated member.
\<close>

datatype item = Text string | Json jsobj

datatype call = SessionCall | EventCall

record request =
  req_call :: call
  req_url :: string
  req_body :: jsobj

record state =
  trackerData :: "jsobj option"
  isInitialized :: bool
  consentGiven :: bool
  pendingInitialization :: bool
  localStorage :: "(string \<times> item) list"
  links :: "link list"
  elements :: "element list"
  window_lmvTrackerData :: "jsobj option"
  requests :: "request list"
  observers :: nat

text \<open>
  \<open>requests\<close> is the list of the network requests issued so far, \<open>observers\<close> the number
  of mutation observers armed so far.
\<close>

definition json_parse :: "jsobj \<Rightarrow> jsobj" where
  "json_parse entries = spread entries []"

definition getStoredData :: "host \<Rightarrow> state \<Rightarrow> jsobj option" where
  "getStoredData h st =
     (case storage_mode h of
        Unavailable \<Rightarrow> None
      | _ \<Rightarrow>
          (case map_of (localStorage st) STORAGE_KEY of
             None \<Rightarrow> None
           | Some (Text s) \<Rightarrow> None
           | Some (Json entries) \<Rightarrow> Some (json_parse entries)))"

definition saveStoredData :: "host \<Rightarrow> jsobj \<Rightarrow> state \<Rightarrow> state" where
  "saveStoredData h data st =
     (case storage_mode h of
        Working \<Rightarrow> st\<lparr>localStorage := AList.update STORAGE_KEY (Json data) (localStorage st)\<rparr>
      | _ \<Rightarrow> st)"

subsection \<open>Cookie, identifier, conversions\<close>

fun find_fbp :: "string list \<Rightarrow> string option" where
  "find_fbp [] = None"
| "find_fbp (cookie # cookies) =
     (case split_on CHR ''='' (trim cookie) of
        [] \<Rightarrow> find_fbp cookies
      | name # rest \<Rightarrow>
          if name = ''_fbp'' then (case rest of [] \<Rightarrow> None | v # _ \<Rightarrow> Some v)
          else find_fbp cookies)"

text \<open>
  \<^verbatim>\<open>getFbpCookie\<close>: the second \<^verbatim>\<open>=\<close>-separated piece of the first cookie named \<^verbatim>\<open>_fbp\<close>.
  \<open>None\<close> stands for both null (no such cookie) and undefined (no \<^verbatim>\<open>=\<close> in it), which
  every caller treats alike.
\<close>

definition getFbpCookie :: "host \<Rightarrow> string option" where
  "getFbpCookie h = find_fbp (split_on CHR '';'' (document_cookie h))"

definition generateUUID :: "host \<Rightarrow> string" where
  "generateUUID h =
     (case random_uuid h of
        Some u \<Rightarrow> u
      | None \<Rightarrow> ''fallback-uuid-'' @ number_to_string h (now h))"

fun to_string :: "host \<Rightarrow> jsval option \<Rightarrow> string" where
  "to_string h None = ''undefined''"
| "to_string h (Some JNull) = ''null''"
| "to_string h (Some (JBool b)) = (if b then ''true'' else ''false'')"
| "to_string h (Some (JNum n)) = number_to_string h n"
| "to_string h (Some (JStr s)) = s"

fun to_number :: "host \<Rightarrow> jsval option \<Rightarrow> int option" where
  "to_number h None = None"
| "to_number h (Some JNull) = Some 0"
| "to_number h (Some (JBool b)) = Some (if b then 1 else 0)"
| "to_number h (Some (JNum n)) = Some n"
| "to_number h (Some (JStr s)) = string_to_number h s"

subsection \<open>Session Manager\<close>

text \<open>A comparison with NaN is false.\<close>

definition shouldStartNewSession :: "config \<Rightarrow> host \<Rightarrow> jsval option \<Rightarrow> bool" where
  "shouldStartNewSession cfg h lastUpdated =
     (if \<not> truthy lastUpdated then True
      else (case to_number h lastUpdated of
              None \<Rightarrow> False
            | Some n \<Rightarrow> now h - n > SESSION_TIMEOUT_MS cfg))"

definition isValidTrackerData :: "jsobj option \<Rightarrow> bool" where
  "isValidTrackerData data =
     (case data of
        None \<Rightarrow> False
      | Some d \<Rightarrow>
          truthy (get_prop d ''uuid'') \<and> truthy (get_prop d ''created_at'') \<and>
          truthy (get_prop d ''last_updated''))"

text \<open>
  \<^verbatim>\<open>(stored.page_views || 0) + 1\<close>: \<^verbatim>\<open>+\<close> appends to a string and adds to anything else.
  The sum of doubles is the integer sum for \<open>n\<close> from \<open>- 2 ^ 53\<close> to \<open>2 ^ 53 - 1\<close>; beyond,
  it is what the host's arithmetic gives.
\<close>

definition next_page_views :: "host \<Rightarrow> jsval option \<Rightarrow> jsval" where
  "next_page_views h pv =
     (if truthy pv then
        (case pv of
           Some (JNum n) \<Rightarrow>
             if - (2 ^ 53) \<le> n \<and> n < 2 ^ 53 then JNum (n + 1) else JNum (number_plus_one h n)
         | Some (JStr s) \<Rightarrow> JStr (s @ ''1'')
         | _ \<Rightarrow> JNum 2)
      else JNum 1)"

text \<open>The object literal of the first branch of \<^verbatim>\<open>initializeTracker\<close> (lines 1343 to 1352).\<close>

definition new_session :: "host \<Rightarrow> jsobj option \<Rightarrow> jsobj \<Rightarrow> jsobj" where
  "new_session h stored utms =
     spread utms
       (spread (if isValidTrackerData stored then (case stored of Some d \<Rightarrow> d | None \<Rightarrow> []) else [])
          [ (''uuid'', JStr (generateUUID h)),
            (''created_at'', JNum (now h)),
            (''last_updated'', JNum (now h)),
            (''page_views'', JNum 1),
            (''current_path'', JStr (location_pathname h @ location_search h)),
            (''current_title'', JStr (document_title h)) ])"

text \<open>The second branch (lines 1359 to 1370), for a stored record \<open>d\<close>.\<close>

definition continued_session :: "host \<Rightarrow> jsobj \<Rightarrow> jsobj \<Rightarrow> jsobj" where
  "continued_session h d utms =
     (let td =
        set_prop ''current_title'' (JStr (document_title h))
          (set_prop ''current_path'' (JStr (location_pathname h @ location_search h))
            (set_prop ''page_views'' (next_page_views h (get_prop d ''page_views''))
              (set_prop ''last_updated'' (JNum (now h)) (spread d []))))
      in if utms \<noteq> [] then spread utms td else td)"

definition session_record :: "config \<Rightarrow> host \<Rightarrow> jsobj option \<Rightarrow> jsobj \<Rightarrow> jsobj" where
  "session_record cfg h stored utms =
     (case stored of
        None \<Rightarrow> new_session h stored utms
      | Some d \<Rightarrow>
          if \<not> isValidTrackerData stored \<or> shouldStartNewSession cfg h (get_prop d ''last_updated'')
          then new_session h stored utms
          else continued_session h d utms)"

text \<open>Lines 1380 to 1384: the cookie fills \<^verbatim>\<open>fbp\<close> when the record has none.\<close>

definition capture_fbp :: "host \<Rightarrow> jsobj \<Rightarrow> jsobj" where
  "capture_fbp h td =
     (case getFbpCookie h of
        None \<Rightarrow> td
      | Some fbp \<Rightarrow>
          if fbp \<noteq> [] \<and> \<not> truthy (get_prop td ''fbp'') then set_prop ''fbp'' (JStr fbp) td
          else td)"

subsection \<open>Consent Gate\<close>

text \<open>The \<^verbatim>\<open>storedConsent\<close> of \<^verbatim>\<open>checkConsent\<close>: the item under the consent key, or null.\<close>

definition storedConsent :: "config \<Rightarrow> host \<Rightarrow> state \<Rightarrow> item option" where
  "storedConsent cfg h st =
     (case storage_mode h of
        Unavailable \<Rightarrow> None
      | _ \<Rightarrow> map_of (localStorage st) (consentStorageKey cfg))"

definition checkConsent :: "config \<Rightarrow> host \<Rightarrow> state \<Rightarrow> bool \<times> state" where
  "checkConsent cfg h st =
     (if \<not> requireConsent cfg then (True, st\<lparr>consentGiven := True\<rparr>)
      else
        (let given = (storedConsent cfg h st = Some (Text ''true''))
         in (given, st\<lparr>consentGiven := given\<rparr>)))"

definition revokeConsent :: "config \<Rightarrow> host \<Rightarrow> state \<Rightarrow> state" where
  "revokeConsent cfg h st =
     (let st1 = st\<lparr>consentGiven := False\<rparr>;
          st2 = (case storage_mode h of
                   Unavailable \<Rightarrow> st1
                 | _ \<Rightarrow> st1\<lparr>localStorage :=
                            AList.delete STORAGE_KEY
                              (AList.delete (consentStorageKey cfg) (localStorage st1))\<rparr>)
      in st2\<lparr>trackerData := None, isInitialized := False, window_lmvTrackerData := None\<rparr>)"

subsection \<open>Reporting Client\<close>

definition utm_params_of :: "jsobj \<Rightarrow> jsobj" where
  "utm_params_of sessionData =
     fold (\<lambda>field acc.
             (case get_prop sessionData field of
                None \<Rightarrow> acc
              | Some v \<Rightarrow> if truthy (Some v) then set_prop field v acc else acc))
          UTM_FIELDS []"

definition with_fbp :: "host \<Rightarrow> jsobj \<Rightarrow> jsobj" where
  "with_fbp h obj =
     (case getFbpCookie h of
        None \<Rightarrow> obj
      | Some fbp \<Rightarrow> if fbp \<noteq> [] then set_prop ''fbp'' (JStr fbp) obj else obj)"

text \<open>
  A property whose value is undefined is left out by \<^verbatim>\<open>JSON.stringify\<close>. The nested
  \<^verbatim>\<open>event_data\<close> object of the event body is written as two dotted keys.
\<close>

definition defined_prop :: "string \<Rightarrow> jsval option \<Rightarrow> jsobj \<Rightarrow> jsobj" where
  "defined_prop k v obj = (case v of None \<Rightarrow> obj | Some x \<Rightarrow> set_prop k x obj)"

definition session_body :: "host \<Rightarrow> jsobj \<Rightarrow> jsobj" where
  "session_body h sessionData =
     spread (with_fbp h (utm_params_of sessionData))
       (set_prop ''platform'' (JStr ''web'')
         (defined_prop ''uuid'' (get_prop sessionData ''uuid'') []))"

definition createOrUpdateSession :: "config \<Rightarrow> host \<Rightarrow> jsobj \<Rightarrow> state \<Rightarrow> bool \<times> state" where
  "createOrUpdateSession cfg h sessionData st =
     (if \<not> enablePageViewTracking cfg then (True, st)
      else if \<not> has_fetch h then (False, st)
      else
        (let st' = st\<lparr>requests := requests st @
                     [\<lparr> req_call = SessionCall,
                        req_url = apiBaseUrl cfg @ ''/sessions'',
                        req_body = session_body h sessionData \<rparr>]\<rparr>
         in (case session_fetch h of
               NetworkError \<Rightarrow> (False, st')
             | Response ok json \<Rightarrow>
                 if ok then (if json then (True, st') else (False, st'))
                 else (False, st'))))"

definition event_body :: "host \<Rightarrow> jsobj \<Rightarrow> string \<Rightarrow> string \<Rightarrow> jsobj \<Rightarrow> jsobj" where
  "event_body h sessionData path title utmParams =
     (let e1 = defined_prop ''uuid'' (get_prop sessionData ''uuid'') [];
          e2 = set_prop ''event_type'' (JStr ''view'') e1;
          e3 = set_prop ''event_name'' (JStr ''page'') e2;
          e4 = set_prop ''platform'' (JStr ''web'') e3;
          e5 = set_prop ''event_data.path'' (JStr path) e4;
          e6 = set_prop ''event_data.title''
                 (JStr (if title \<noteq> [] then title else document_title h)) e5;
          e7 = spread utmParams e6;
          e8 = with_fbp h e7;
          e9 = defined_prop ''ip_address'' (get_prop sessionData ''ip_address'') e8;
          e10 = set_prop ''user_agent'' (JStr (user_agent h)) e9
      in set_prop ''referrer''
           (if document_referrer h \<noteq> [] then JStr (document_referrer h) else JNull) e10)"

definition logPageViewEvent ::
  "config \<Rightarrow> host \<Rightarrow> jsobj \<Rightarrow> string \<Rightarrow> string \<Rightarrow> jsobj \<Rightarrow> state \<Rightarrow> bool \<times> state" where
  "logPageViewEvent cfg h sessionData path title utmParams st =
     (if \<not> enablePageViewTracking cfg then (True, st)
      else if \<not> has_fetch h then (False, st)
      else
        (let st' = st\<lparr>requests := requests st @
                     [\<lparr> req_call = EventCall,
                        req_url = apiBaseUrl cfg @ ''/sessions/'' @
                                  to_string h (get_prop sessionData ''uuid'') @ ''/events'',
                        req_body = event_body h sessionData path title utmParams \<rparr>]\<rparr>
         in (case event_fetch h of
               NetworkError \<Rightarrow> (False, st')
             | Response ok json \<Rightarrow>
                 if ok then (if json then (True, st') else (False, st'))
                 else (False, st'))))"

subsection \<open>Link Decorator\<close>

definition sp_has :: "string \<Rightarrow> (string \<times> string) list \<Rightarrow> bool" where
  "sp_has k q = (k \<in> set (map fst q))"

text \<open>
  \<^verbatim>\<open>URLSearchParams.set\<close>: the first pair of that name takes the value and the other
  pairs of that name go; a name that is absent is appended.
\<close>

fun sp_replace :: "string \<Rightarrow> string \<Rightarrow> (string \<times> string) list \<Rightarrow> (string \<times> string) list" where
  "sp_replace k v [] = []"
| "sp_replace k v (p # ps) =
     (if fst p = k then (k, v) # filter (\<lambda>r. fst r \<noteq> k) ps else p # sp_replace k v ps)"

definition sp_set :: "string \<Rightarrow> string \<Rightarrow> (string \<times> string) list \<Rightarrow> (string \<times> string) list" where
  "sp_set k v q = (if sp_has k q then sp_replace k v q else q @ [(k, v)])"

fun contains :: "string \<Rightarrow> string \<Rightarrow> bool" where
  "contains pat [] = (pat = [])"
| "contains pat (x # xs) = (take (length pat) (x # xs) = pat \<or> contains pat xs)"

text \<open>
  The selector \<^verbatim>\<open>a[href*="targetDomain"], a[href^="https://paymentDomain"]\<close> on the text of
  the attribute. A substring selector with an empty value selects nothing. The domains
  are taken to hold no character that is special in a CSS string.
\<close>

definition selected :: "config \<Rightarrow> link \<Rightarrow> bool" where
  "selected cfg l =
     ((targetDomain cfg \<noteq> [] \<and> contains (targetDomain cfg) (href_attr l)) \<or>
      take (length (''https://'' @ paymentDomain cfg)) (href_attr l) = ''https://'' @ paymentDomain cfg)"

definition set_href :: "host \<Rightarrow> url \<Rightarrow> link \<Rightarrow> link" where
  "set_href h u l = l\<lparr>href_attr := url_to_string h u, href_url := Some u\<rparr>"

definition add_utm_params :: "host \<Rightarrow> jsobj \<Rightarrow> (string \<times> string) list \<Rightarrow> (string \<times> string) list" where
  "add_utm_params h td q =
     fold (\<lambda>param acc.
             if truthy (get_prop td param) \<and> \<not> sp_has param acc
             then sp_set param (to_string h (get_prop td param)) acc
             else acc)
          UTM_FIELDS q"

definition add_fbp_param :: "host \<Rightarrow> (string \<times> string) list \<Rightarrow> (string \<times> string) list" where
  "add_fbp_param h q =
     (case getFbpCookie h of
        None \<Rightarrow> q
      | Some fbp \<Rightarrow> if fbp \<noteq> [] \<and> \<not> sp_has ''fbp'' q then sp_set ''fbp'' fbp q else q)"

text \<open>
  The body of the \<^verbatim>\<open>forEach\<close> of \<^verbatim>\<open>decorateLinks\<close> for one link: the link after it and
  whether it was counted. Reading \<^verbatim>\<open>trackerData.uuid\<close> while \<^verbatim>\<open>trackerData\<close> is null throws
  inside the \<^verbatim>\<open>try\<close> of that link, before anything is written, and so does a
  \<^verbatim>\<open>new URL\<close> that fails.
\<close>

definition decorate_link :: "config \<Rightarrow> host \<Rightarrow> jsobj option \<Rightarrow> link \<Rightarrow> link \<times> bool" where
  "decorate_link cfg h td l =
     (if \<not> selected cfg l then (l, False)
      else
        (case href_url l of
           None \<Rightarrow> (l, False)
         | Some u \<Rightarrow>
             if hostname u = targetDomain cfg then
               (if \<not> sp_has ''uuid'' (searchParams u) then
                  (case td of
                     None \<Rightarrow> (l, False)
                   | Some d \<Rightarrow>
                       (set_href h
                          (u\<lparr>searchParams :=
                               add_fbp_param h
                                 (add_utm_params h d
                                   (sp_set ''uuid'' (to_string h (get_prop d ''uuid''))
                                      (searchParams u)))\<rparr>) l,
                        True))
                else (l, False))
             else if hostname u = paymentDomain cfg then
               (if \<not> sp_has ''client_reference_id'' (searchParams u) then
                  (case td of
                     None \<Rightarrow> (l, False)
                   | Some d \<Rightarrow>
                       (set_href h
                          (u\<lparr>searchParams :=
                               sp_set ''client_reference_id'' (to_string h (get_prop d ''uuid''))
                                 (searchParams u)\<rparr>) l,
                        True))
                else (l, False))
             else (l, False)))"

definition decorateLinks :: "config \<Rightarrow> host \<Rightarrow> state \<Rightarrow> nat \<times> state" where
  "decorateLinks cfg h st =
     (if \<not> enableLinkDecoration cfg then (0, st)
      else
        (let rs = map (decorate_link cfg h (trackerData st)) (links st)
         in (length (filter snd rs), st\<lparr>links := map fst rs\<rparr>)))"

subsection \<open>Form Populator\<close>

text \<open>
  The body of the inner \<^verbatim>\<open>forEach\<close> of \<^verbatim>\<open>populateUTMFields\<close> for one element and the
  value \<open>v\<close> of the field: the element after it and whether it was counted. Assigning
  to \<^verbatim>\<open>element.value\<close> converts to a string, of which the control keeps what its kind
  allows; \<^verbatim>\<open>===\<close> holds between an option and \<open>v\<close> only when \<open>v\<close> is that string.
\<close>

definition populate_element :: "host \<Rightarrow> jsval \<Rightarrow> element \<Rightarrow> element \<times> bool" where
  "populate_element h v e =
     (if tagName e = ''INPUT'' \<or> tagName e = ''TEXTAREA'' then
        (if el_type e = ''hidden'' \<or> el_type e = ''text'' \<or> el_type e = []
         then (e\<lparr>el_value := assigned_value h e (to_string h (Some v))\<rparr>, True)
         else (e, False))
      else if tagName e = ''SELECT'' then
        (case find (\<lambda>opt. JStr (fst opt) = v \<or> JStr (snd opt) = v) (el_options e) of
           None \<Rightarrow> (e, False)
         | Some opt \<Rightarrow> (e\<lparr>el_value := fst opt\<rparr>, True))
      else (e, False))"

text \<open>\<^verbatim>\<open>document.querySelectorAll('#' + param)\<close>: every element with that id.\<close>

definition populate_param :: "host \<Rightarrow> string \<Rightarrow> jsval \<Rightarrow> element list \<Rightarrow> (element \<times> bool) list" where
  "populate_param h param v els =
     map (\<lambda>e. if el_id e = param then populate_element h v e else (e, False)) els"

fun populate_loop :: "host \<Rightarrow> jsobj \<Rightarrow> string list \<Rightarrow> element list \<times> nat \<Rightarrow> element list \<times> nat" where
  "populate_loop h td [] acc = acc"
| "populate_loop h td (param # params) (els, n) =
     (case get_prop td param of
        None \<Rightarrow> populate_loop h td params (els, n)
      | Some v \<Rightarrow>
          if truthy (Some v) then
            (let rs = populate_param h param v els
             in populate_loop h td params (map fst rs, n + length (filter snd rs)))
          else populate_loop h td params (els, n))"

definition populate_fbp :: "host \<Rightarrow> element list \<times> nat \<Rightarrow> element list \<times> nat" where
  "populate_fbp h acc =
     (case getFbpCookie h of
        None \<Rightarrow> acc
      | Some fbp \<Rightarrow>
          if fbp \<noteq> [] then
            (let rs = populate_param h ''fbp'' (JStr fbp) (fst acc)
             in (map fst rs, snd acc + length (filter snd rs)))
          else acc)"

text \<open>
  With \<^verbatim>\<open>trackerData\<close> null the first \<^verbatim>\<open>trackerData[param]\<close> throws outside every inner
  \<^verbatim>\<open>try\<close>; \<^verbatim>\<open>safeExecute\<close> catches it and returns its fallback 0.
\<close>

definition populateUTMFields :: "config \<Rightarrow> host \<Rightarrow> state \<Rightarrow> nat \<times> state" where
  "populateUTMFields cfg h st =
     (if \<not> enableFormPopulation cfg then (0, st)
      else
        (case trackerData st of
           None \<Rightarrow> (0, st)
         | Some td \<Rightarrow>
             (let r = populate_fbp h (populate_loop h td UTM_FIELDS (elements st, 0))
              in (snd r, st\<lparr>elements := fst r\<rparr>))))"

subsection \<open>Initialization and the exposed control surface\<close>

text \<open>Arming the Change Watcher; its callback is not modelled.\<close>

definition observeDOMChanges :: "host \<Rightarrow> state \<Rightarrow> state" where
  "observeDOMChanges h st =
     (if \<not> has_MutationObserver h then st else st\<lparr>observers := observers st + 1\<rparr>)"

text \<open>
  \<^verbatim>\<open>initializeTracker\<close>, with its two \<^verbatim>\<open>await\<close>s run to completion in place: nothing else
  runs between the steps of one call. The result is the value the promise resolves to.
\<close>

definition initializeTracker :: "config \<Rightarrow> host \<Rightarrow> state \<Rightarrow> jsobj option \<times> state" where
  "initializeTracker cfg h st =
     (if isInitialized st then (trackerData st, st)
      else
        (case checkConsent cfg h st of
           (False, st1) \<Rightarrow> (None, st1\<lparr>pendingInitialization := True\<rparr>)
         | (True, st1) \<Rightarrow>
             (let stored = getStoredData h st1;
                  utms = extractUTMsFromURL h;
                  currentPath = location_pathname h @ location_search h;
                  currentTitle = document_title h;
                  td = capture_fbp h (session_record cfg h stored utms);
                  st2 = saveStoredData h td (st1\<lparr>trackerData := Some td\<rparr>);
                  (sessionCreated, st3) = createOrUpdateSession cfg h td st2;
                  st4 = (if sessionCreated
                         then snd (logPageViewEvent cfg h td currentPath currentTitle utms st3)
                         else st3);
                  st5 = snd (decorateLinks cfg h st4);
                  st6 = snd (populateUTMFields cfg h st5);
                  st7 = observeDOMChanges h st6;
                  st8 = st7\<lparr>isInitialized := True, window_lmvTrackerData := trackerData st7\<rparr>
              in (trackerData st8, st8))))"

definition giveConsent :: "config \<Rightarrow> host \<Rightarrow> state \<Rightarrow> state" where
  "giveConsent cfg h st =
     (let st1 = st\<lparr>consentGiven := True\<rparr>;
          st2 = (case storage_mode h of
                   Working \<Rightarrow> st1\<lparr>localStorage :=
                                AList.update (consentStorageKey cfg) (Text ''true'') (localStorage st1)\<rparr>
                 | _ \<Rightarrow> st1)
      in if pendingInitialization st2 \<and> \<not> isInitialized st2
         then snd (initializeTracker cfg h st2)
         else st2)"

text \<open>The members of \<^verbatim>\<open>window.lmvTracker\<close>.\<close>

definition getSessionUUID :: "state \<Rightarrow> jsval option" where
  "getSessionUUID st = (case trackerData st of None \<Rightarrow> None | Some d \<Rightarrow> get_prop d ''uuid'')"

definition getSessionData :: "state \<Rightarrow> jsobj option" where
  "getSessionData st = trackerData st"

definition refreshLinks :: "config \<Rightarrow> host \<Rightarrow> state \<Rightarrow> nat \<times> state" where
  "refreshLinks = decorateLinks"

definition refreshFields :: "config \<Rightarrow> host \<Rightarrow> state \<Rightarrow> nat \<times> state" where
  "refreshFields = populateUTMFields"

definition reinitialize :: "config \<Rightarrow> host \<Rightarrow> state \<Rightarrow> jsobj option \<times> state" where
  "reinitialize = initializeTracker"

definition hasConsent :: "state \<Rightarrow> bool" where
  "hasConsent st = consentGiven st"

text \<open>The state of a page before the script ran, for a given storage and document.\<close>

definition fresh_state :: "(string \<times> item) list \<Rightarrow> link list \<Rightarrow> element list \<Rightarrow> state" where
  "fresh_state store ls els =
     \<lparr> trackerData = None, isInitialized = False, consentGiven = False,
       pendingInitialization = False, localStorage = store, links = ls, elements = els,
       window_lmvTrackerData = None, requests = [], observers = 0 \<rparr>"

text \<open>
  The record a load computes when it gets past the consent gate: what \<^verbatim>\<open>initializeTracker\<close>
  assigns to \<^verbatim>\<open>trackerData\<close> in lines 1342 to 1384. It only abbreviates that term in the
  statements below.
\<close>

definition loaded_record :: "config \<Rightarrow> host \<Rightarrow> state \<Rightarrow> jsobj" where
  "loaded_record cfg h st =
     capture_fbp h (session_record cfg h (getStoredData h st) (extractUTMsFromURL h))"

subsection \<open>A concrete page\<close>

text \<open>
  A page opened at \<^verbatim>\<open>/landing?utm_source=x\<close> with no cookie, all browser services working,
  and a stored record last updated at instant 1000. With the default timeout of 30
  minutes, the instant 1801001 of \<open>example_host\<close> is one millisecond past the timeout.
\<close>

definition example_host :: host where
  "example_host =
     \<lparr> now = 1801001, random_uuid = Some ''new-id'',
       search_params = Some [(''utm_source'', ''x'')],
       location_pathname = ''/landing'', location_search = ''?utm_source=x'',
       document_title = ''Landing'', document_cookie = [], document_referrer = [],
       user_agent = ''UA'', storage_mode = Working, has_fetch = True,
       session_fetch = Response True True, event_fetch = Response True True,
       has_MutationObserver = True, string_to_number = (\<lambda>s. None),
       number_to_string = (\<lambda>n. ''0''), number_plus_one = (\<lambda>n. n),
       url_to_string = (\<lambda>u. hostname u), assigned_value = (\<lambda>e s. s) \<rparr>"

definition example_stored :: jsobj where
  "example_stored =
     [ (''uuid'', JStr ''old-id''), (''created_at'', JNum 1000), (''last_updated'', JNum 1000),
       (''page_views'', JNum 3), (''utm_source'', JStr ''old''), (''utm_medium'', JStr ''m'') ]"

definition example_page :: state where
  "example_page = fresh_state [(STORAGE_KEY, Json example_stored)] [] []"

text \<open>What the spec calls HTTP-level success of a call: the \<^verbatim>\<open>ok\<close> flag of its response.\<close>

definition http_success :: "fetch_outcome \<Rightarrow> bool" where
  "http_success r = (case r of NetworkError \<Rightarrow> False | Response ok json \<Rightarrow> ok)"

text \<open>
  More of the concrete page: a link to the target domain, a payment link that already
  carries a \<^verbatim>\<open>uuid\<close> parameter, a text input for \<^verbatim>\<open>utm_source\<close>, and a configuration that
  requires consent.
\<close>

definition example_target_link :: link where
  "example_target_link =
     \<lparr> href_attr = ''https://app.lamainverte.ca/signup'',
       href_url = Some \<lparr> hostname = ''app.lamainverte.ca'', searchParams = [],
                          url_other = ''https /signup'' \<rparr> \<rparr>"

definition example_payment_url :: url where
  "example_payment_url =
     \<lparr> hostname = ''paiement.lamainverte.ca'', searchParams = [(''uuid'', ''abc'')],
       url_other = ''https /pay'' \<rparr>"

definition example_payment_link :: link where
  "example_payment_link =
     \<lparr> href_attr = ''https://paiement.lamainverte.ca/pay?uuid=abc'',
       href_url = Some example_payment_url \<rparr>"

definition example_input :: element where
  "example_input =
     \<lparr> el_id = ''utm_source'', tagName = ''INPUT'', el_type = ''text'', el_value = [],
       el_options = [] \<rparr>"

definition example_document :: state where
  "example_document = fresh_state [] [example_target_link, example_payment_link] [example_input]"

definition consent_config :: config where
  "consent_config = default_config\<lparr>requireConsent := True\<rparr>"

text \<open>A page whose storage holds the consent sentinel from an earlier visit.\<close>

definition example_consented_page :: state where
  "example_consented_page = fresh_state [(''lmv_consent_given'', Text ''true'')] [] []"

section \<open>Verified properties\<close>

subsection \<open>Objects\<close>

lemma trim_Nil: "trim [] = []"
  by (simp add: trim_def)

lemma get_prop_Nil: "get_prop [] k = None"
  by (simp add: get_prop_def)

lemma get_set_prop: "get_prop (set_prop k v obj) k' = (if k' = k then Some v else get_prop obj k')"
  by (simp add: get_prop_def set_prop_def update_conv')

lemma distinct_set_prop: "distinct (map fst obj) \<Longrightarrow> distinct (map fst (set_prop k v obj))"
  by (simp add: set_prop_def distinct_update)

lemma map_of_rev_distinct: "distinct (map fst xs) \<Longrightarrow> map_of (rev xs) k = map_of xs k"
proof (induction xs)
  case Nil
  then show ?case by simp
next
  case (Cons x xs)
  obtain a b where x: "x = (a, b)" by (cases x)
  from Cons.prems x have "map_of xs a = None" by (simp add: map_of_eq_None_iff)
  moreover from Cons have "map_of (rev xs) k = map_of xs k" by simp
  ultimately show ?case using x by (simp add: map_add_def split: option.split)
qed

lemma spread_Cons: "spread (p # ps) tgt = spread ps (set_prop (fst p) (snd p) tgt)"
  by (simp add: spread_def case_prod_beta)

lemma spread_Nil: "spread [] tgt = tgt"
  by (simp add: spread_def)

lemma get_spread:
  "get_prop (spread src tgt) k =
     (case map_of (rev src) k of None \<Rightarrow> get_prop tgt k | Some v \<Rightarrow> Some v)"
proof (induction src arbitrary: tgt)
  case Nil
  then show ?case by (simp add: spread_Nil)
next
  case (Cons p ps)
  then show ?case
    by (cases p) (auto simp: spread_Cons get_set_prop map_add_def split: option.split)
qed

lemma distinct_spread:
  "distinct (map fst tgt) \<Longrightarrow> distinct (map fst (spread src tgt))"
  by (induction src arbitrary: tgt) (simp_all add: spread_Cons spread_Nil distinct_set_prop)

lemma get_spread_distinct:
  "distinct (map fst src) \<Longrightarrow>
   get_prop (spread src tgt) k =
     (case get_prop src k of None \<Rightarrow> get_prop tgt k | Some v \<Rightarrow> Some v)"
proof -
  assume "distinct (map fst src)"
  then have "map_of (rev src) k = get_prop src k"
    by (simp add: map_of_rev_distinct get_prop_def)
  then show ?thesis by (simp add: get_spread)
qed

lemma set_prop_fresh:
  "k \<notin> fst ` set obj \<Longrightarrow> set_prop k v obj = obj @ [(k, v)]"
  by (induction obj) (auto simp: set_prop_def)

lemma spread_fresh:
  "distinct (map fst (tgt @ src)) \<Longrightarrow> spread src tgt = tgt @ src"
proof (induction src arbitrary: tgt)
  case Nil
  then show ?case by (simp add: spread_Nil)
next
  case (Cons p ps)
  have fresh: "fst p \<notin> fst ` set tgt" using Cons.prems by auto
  have "distinct (map fst ((tgt @ [p]) @ ps))" using Cons.prems by simp
  from Cons.IH[OF this] fresh show ?case
    by (cases p) (simp add: spread_Cons set_prop_fresh)
qed

lemma json_parse_distinct: "distinct (map fst (json_parse entries))"
  by (simp add: json_parse_def distinct_spread)

lemma json_parse_id: "distinct (map fst d) \<Longrightarrow> json_parse d = d"
  using spread_fresh[of "[]" d] by (simp add: json_parse_def)

lemma getStoredData_distinct: "getStoredData h st = Some d \<Longrightarrow> distinct (map fst d)"
  by (auto simp: getStoredData_def json_parse_distinct
           split: storage_mode.splits option.splits item.splits)

subsection \<open>UTM Extractor\<close>

lemma extract_loop_get:
  "get_prop (extract_loop params keys data) k =
     (case map_of params k of
        None \<Rightarrow> get_prop data k
      | Some v \<Rightarrow> if k \<in> set keys \<and> trim v \<noteq> [] then Some (JStr (trim v)) else get_prop data k)"
proof (induction keys arbitrary: data)
  case Nil
  then show ?case by (simp split: option.split)
next
  case (Cons key keys)
  then show ?case
    by (auto simp: get_set_prop trim_Nil split: option.split)
qed

lemma extract_loop_distinct:
  "distinct (map fst data) \<Longrightarrow> distinct (map fst (extract_loop params keys data))"
  by (induction keys arbitrary: data) (auto simp: distinct_set_prop split: option.split)

text \<open>
  C5. For every query, the result of the UTM Extractor holds a key exactly when the key
  is one of the eight recognized names and the first value the query gives for it is
  non-empty after trimming; the value held is that trimmed value. The result has no key
  twice. When reading the query fails, the result is the empty object.
\<close>

theorem C5_extractor:
  "get_prop (extractUTMsFromURL h) k =
     (case search_params h of
        None \<Rightarrow> None
      | Some params \<Rightarrow>
          (case map_of params k of
             None \<Rightarrow> None
           | Some v \<Rightarrow> if k \<in> set UTM_FIELDS \<and> trim v \<noteq> [] then Some (JStr (trim v)) else None))
   \<and> distinct (map fst (extractUTMsFromURL h))
   \<and> (case search_params h of None \<Rightarrow> extractUTMsFromURL h = [] | Some params \<Rightarrow> True)"
  by (simp add: extractUTMsFromURL_def extract_loop_get extract_loop_distinct get_prop_Nil
           split: option.split)

subsection \<open>Steps of the initialization\<close>

lemma checkConsent_snd:
  "snd (checkConsent cfg h st) = st\<lparr>consentGiven := fst (checkConsent cfg h st)\<rparr>"
  by (simp add: checkConsent_def Let_def)

lemma checkConsent_fst:
  "fst (checkConsent cfg h st) =
     (if requireConsent cfg then storedConsent cfg h st = Some (Text ''true'') else True)"
  by (simp add: checkConsent_def Let_def)

lemma getStoredData_frame:
  "localStorage st' = localStorage st \<Longrightarrow> getStoredData h st' = getStoredData h st"
  by (simp add: getStoredData_def split: storage_mode.split)

lemma loaded_record_frame:
  "localStorage st' = localStorage st \<Longrightarrow> loaded_record cfg h st' = loaded_record cfg h st"
  using getStoredData_frame[of st' st h] by (simp add: loaded_record_def)

lemma createOrUpdateSession_fst:
  "fst (createOrUpdateSession cfg h td st) =
     (if enablePageViewTracking cfg then has_fetch h \<and> session_fetch h = Response True True
      else True)"
  by (auto simp: createOrUpdateSession_def Let_def split: fetch_outcome.split)

lemma createOrUpdateSession_snd:
  "snd (createOrUpdateSession cfg h td st) =
     st\<lparr>requests := requests st @
         (if enablePageViewTracking cfg \<and> has_fetch h
          then [\<lparr> req_call = SessionCall, req_url = apiBaseUrl cfg @ ''/sessions'',
                   req_body = session_body h td \<rparr>]
          else [])\<rparr>"
  by (auto simp: createOrUpdateSession_def Let_def split: fetch_outcome.split)

lemma logPageViewEvent_snd:
  "snd (logPageViewEvent cfg h td path title utms st) =
     st\<lparr>requests := requests st @
         (if enablePageViewTracking cfg \<and> has_fetch h
          then [\<lparr> req_call = EventCall,
                   req_url = apiBaseUrl cfg @ ''/sessions/'' @
                             to_string h (get_prop td ''uuid'') @ ''/events'',
                   req_body = event_body h td path title utms \<rparr>]
          else [])\<rparr>"
  by (auto simp: logPageViewEvent_def Let_def split: fetch_outcome.split)

lemma decorateLinks_snd:
  "snd (decorateLinks cfg h st) =
     st\<lparr>links := (if enableLinkDecoration cfg
                  then map (\<lambda>l. fst (decorate_link cfg h (trackerData st) l)) (links st)
                  else links st)\<rparr>"
  by (simp add: decorateLinks_def Let_def comp_def)

lemma populateUTMFields_frame:
  "trackerData (snd (populateUTMFields cfg h st)) = trackerData st"
  "isInitialized (snd (populateUTMFields cfg h st)) = isInitialized st"
  "consentGiven (snd (populateUTMFields cfg h st)) = consentGiven st"
  "pendingInitialization (snd (populateUTMFields cfg h st)) = pendingInitialization st"
  "localStorage (snd (populateUTMFields cfg h st)) = localStorage st"
  "links (snd (populateUTMFields cfg h st)) = links st"
  "window_lmvTrackerData (snd (populateUTMFields cfg h st)) = window_lmvTrackerData st"
  "requests (snd (populateUTMFields cfg h st)) = requests st"
  "observers (snd (populateUTMFields cfg h st)) = observers st"
  by (simp_all add: populateUTMFields_def Let_def split: option.split)

lemma saveStoredData_frame:
  "trackerData (saveStoredData h td st) = trackerData st"
  "isInitialized (saveStoredData h td st) = isInitialized st"
  "consentGiven (saveStoredData h td st) = consentGiven st"
  "pendingInitialization (saveStoredData h td st) = pendingInitialization st"
  "links (saveStoredData h td st) = links st"
  "elements (saveStoredData h td st) = elements st"
  "window_lmvTrackerData (saveStoredData h td st) = window_lmvTrackerData st"
  "requests (saveStoredData h td st) = requests st"
  "observers (saveStoredData h td st) = observers st"
  "localStorage (saveStoredData h td st) =
     (if storage_mode h = Working then AList.update STORAGE_KEY (Json td) (localStorage st)
      else localStorage st)"
  by (simp_all add: saveStoredData_def split: storage_mode.split)

lemma observeDOMChanges_eq:
  "observeDOMChanges h st =
     st\<lparr>observers := observers st + (if has_MutationObserver h then 1 else 0)\<rparr>"
  by (simp add: observeDOMChanges_def)

lemma initializeTracker_blocked:
  "\<not> isInitialized st \<Longrightarrow> \<not> fst (checkConsent cfg h st) \<Longrightarrow>
   initializeTracker cfg h st = (None, st\<lparr>consentGiven := False, pendingInitialization := True\<rparr>)"
  by (cases "checkConsent cfg h st")
     (use checkConsent_snd[of cfg h st] in \<open>simp add: initializeTracker_def\<close>)

lemma initializeTracker_done:
  "isInitialized st \<Longrightarrow> initializeTracker cfg h st = (trackerData st, st)"
  by (simp add: initializeTracker_def)

lemma initializeTracker_run:
  assumes "\<not> isInitialized st" and "fst (checkConsent cfg h st)"
  shows "fst (initializeTracker cfg h st) = Some (loaded_record cfg h st)"
    and "trackerData (snd (initializeTracker cfg h st)) = Some (loaded_record cfg h st)"
    and "window_lmvTrackerData (snd (initializeTracker cfg h st)) = Some (loaded_record cfg h st)"
    and "isInitialized (snd (initializeTracker cfg h st))"
    and "consentGiven (snd (initializeTracker cfg h st))"
    and "pendingInitialization (snd (initializeTracker cfg h st)) = pendingInitialization st"
    and "localStorage (snd (initializeTracker cfg h st)) =
           (if storage_mode h = Working
            then AList.update STORAGE_KEY (Json (loaded_record cfg h st)) (localStorage st)
            else localStorage st)"
    and "observers (snd (initializeTracker cfg h st)) =
           observers st + (if has_MutationObserver h then 1 else 0)"
    and "links (snd (initializeTracker cfg h st)) =
           (if enableLinkDecoration cfg
            then map (\<lambda>l. fst (decorate_link cfg h (Some (loaded_record cfg h st)) l)) (links st)
            else links st)"
    and "map req_call (requests (snd (initializeTracker cfg h st))) =
           map req_call (requests st) @
           (if enablePageViewTracking cfg \<and> has_fetch h
            then SessionCall # (if session_fetch h = Response True True then [EventCall] else [])
            else [])"
proof -
  obtain st1 where cc: "checkConsent cfg h st = (True, st1)"
    using assms(2) by (cases "checkConsent cfg h st") simp
  have st1: "st1 = st\<lparr>consentGiven := True\<rparr>"
    using checkConsent_snd[of cfg h st] cc by simp
  have gs: "getStoredData h st1 = getStoredData h st"
    by (rule getStoredData_frame) (simp add: st1)
  have lr: "loaded_record cfg h (st\<lparr>consentGiven := True\<rparr>) = loaded_record cfg h st"
    by (rule loaded_record_frame) simp
  note defs = initializeTracker_def cc Let_def gs loaded_record_def[symmetric] lr
    split_beta createOrUpdateSession_snd createOrUpdateSession_fst logPageViewEvent_snd
    decorateLinks_snd populateUTMFields_frame saveStoredData_frame observeDOMChanges_eq
  show "fst (initializeTracker cfg h st) = Some (loaded_record cfg h st)"
    using assms(1) by (simp add: defs)
  show "trackerData (snd (initializeTracker cfg h st)) = Some (loaded_record cfg h st)"
    using assms(1) by (simp add: defs)
  show "window_lmvTrackerData (snd (initializeTracker cfg h st)) = Some (loaded_record cfg h st)"
    using assms(1) by (simp add: defs)
  show "isInitialized (snd (initializeTracker cfg h st))"
    using assms(1) by (simp add: defs)
  show "consentGiven (snd (initializeTracker cfg h st))"
    using assms(1) by (simp add: defs st1)
  show "pendingInitialization (snd (initializeTracker cfg h st)) = pendingInitialization st"
    using assms(1) by (simp add: defs st1)
  show "localStorage (snd (initializeTracker cfg h st)) =
           (if storage_mode h = Working
            then AList.update STORAGE_KEY (Json (loaded_record cfg h st)) (localStorage st)
            else localStorage st)"
    using assms(1) by (simp add: defs st1)
  show "observers (snd (initializeTracker cfg h st)) =
           observers st + (if has_MutationObserver h then 1 else 0)"
    using assms(1) by (simp add: defs st1)
  show "links (snd (initializeTracker cfg h st)) =
           (if enableLinkDecoration cfg
            then map (\<lambda>l. fst (decorate_link cfg h (Some (loaded_record cfg h st)) l)) (links st)
            else links st)"
    using assms(1) by (simp add: defs st1)
  show "map req_call (requests (snd (initializeTracker cfg h st))) =
           map req_call (requests st) @
           (if enablePageViewTracking cfg \<and> has_fetch h
            then SessionCall # (if session_fetch h = Response True True then [EventCall] else [])
            else [])"
    using assms(1) by (simp add: defs st1)
qed

subsection \<open>The session record\<close>

lemma capture_fbp_other: "k \<noteq> ''fbp'' \<Longrightarrow> get_prop (capture_fbp h td) k = get_prop td k"
  by (simp add: capture_fbp_def get_set_prop split: option.split)

lemma capture_fbp_truthy: "truthy (get_prop td ''fbp'') \<Longrightarrow> capture_fbp h td = td"
  by (simp add: capture_fbp_def split: option.split)

lemma capture_fbp_kept:
  "truthy (get_prop td k) \<or> k \<noteq> ''fbp'' \<Longrightarrow> get_prop (capture_fbp h td) k = get_prop td k"
  by (cases "k = ''fbp''") (auto simp: capture_fbp_truthy capture_fbp_other)

lemma distinct_capture_fbp:
  "distinct (map fst td) \<Longrightarrow> distinct (map fst (capture_fbp h td))"
  by (simp add: capture_fbp_def distinct_set_prop split: option.split)

lemma extract_distinct: "distinct (map fst (extractUTMsFromURL h))"
  by (simp add: extractUTMsFromURL_def extract_loop_distinct split: option.split)

lemma extract_keys:
  "k \<notin> set UTM_FIELDS \<Longrightarrow> get_prop (extractUTMsFromURL h) k = None"
  by (simp add: extractUTMsFromURL_def extract_loop_get get_prop_Nil split: option.split)

lemma get_new_session:
  assumes "distinct (map fst utms)"
    and "case stored of Some d \<Rightarrow> distinct (map fst d) | None \<Rightarrow> True"
  shows "get_prop (new_session h stored utms) k =
     (case get_prop utms k of
        Some v \<Rightarrow> Some v
      | None \<Rightarrow>
          (case (if isValidTrackerData stored then (case stored of Some d \<Rightarrow> get_prop d k | None \<Rightarrow> None) else None) of
             Some v \<Rightarrow> Some v
           | None \<Rightarrow>
               get_prop
                 [ (''uuid'', JStr (generateUUID h)),
                   (''created_at'', JNum (now h)),
                   (''last_updated'', JNum (now h)),
                   (''page_views'', JNum 1),
                   (''current_path'', JStr (location_pathname h @ location_search h)),
                   (''current_title'', JStr (document_title h)) ] k))"
proof (cases "isValidTrackerData stored")
  case True
  then obtain d where d: "stored = Some d" by (cases stored) (simp_all add: isValidTrackerData_def)
  with assms(2) have "distinct (map fst d)" by simp
  with assms(1) True d show ?thesis
    by (simp add: new_session_def get_spread_distinct split: option.split)
next
  case False
  with assms(1) show ?thesis
    by (simp add: new_session_def get_spread_distinct spread_Nil split: option.split)
qed

lemma distinct_new_session: "distinct (map fst (new_session h stored utms))"
  by (simp add: new_session_def distinct_spread)

lemma get_continued_session:
  assumes "distinct (map fst utms)" and "distinct (map fst d)"
  shows "get_prop (continued_session h d utms) k =
     (case get_prop utms k of
        Some v \<Rightarrow> Some v
      | None \<Rightarrow>
          if k = ''current_title'' then Some (JStr (document_title h))
          else if k = ''current_path'' then Some (JStr (location_pathname h @ location_search h))
          else if k = ''page_views'' then Some (next_page_views h (get_prop d ''page_views''))
          else if k = ''last_updated'' then Some (JNum (now h))
          else get_prop d k)"
  using assms
  by (cases "utms = []")
     (simp_all add: continued_session_def Let_def get_spread_distinct get_set_prop get_prop_Nil
        split: option.split)

lemma distinct_continued_session: "distinct (map fst (continued_session h d utms))"
  by (simp add: continued_session_def Let_def distinct_spread distinct_set_prop)

lemma distinct_loaded_record: "distinct (map fst (loaded_record cfg h st))"
  by (simp add: loaded_record_def session_record_def distinct_capture_fbp distinct_new_session
        distinct_continued_session split: option.split)

lemma UTM_FIELDS_not_base:
  "k \<in> set UTM_FIELDS \<Longrightarrow>
   k \<noteq> ''uuid'' \<and> k \<noteq> ''created_at'' \<and> k \<noteq> ''last_updated'' \<and> k \<noteq> ''page_views'' \<and>
   k \<noteq> ''current_path'' \<and> k \<noteq> ''current_title''"
  by (auto simp: UTM_FIELDS_def)

text \<open>A stored UTM field the URL does not supply survives both branches.\<close>

lemma session_record_utm_kept:
  assumes "distinct (map fst d)" and "isValidTrackerData (Some d)"
    and "k \<in> set UTM_FIELDS" and "get_prop d k = Some v"
    and "get_prop (extractUTMsFromURL h) k = None"
  shows "get_prop (session_record cfg h (Some d) (extractUTMsFromURL h)) k = Some v"
  using assms UTM_FIELDS_not_base[OF assms(3)]
  by (simp add: session_record_def get_new_session get_continued_session extract_distinct)

lemma loaded_record_utm_kept:
  assumes "getStoredData h st = Some d" and "isValidTrackerData (Some d)"
    and "k \<in> set UTM_FIELDS" and "get_prop d k = Some v"
    and "truthy (Some v) \<or> k \<noteq> ''fbp''"
    and "get_prop (extractUTMsFromURL h) k = None"
  shows "get_prop (loaded_record cfg h st) k = Some v"
proof -
  have "get_prop (session_record cfg h (Some d) (extractUTMsFromURL h)) k = Some v"
    using assms getStoredData_distinct[OF assms(1)] by (simp add: session_record_utm_kept)
  then show ?thesis
    using assms(1,5) by (simp add: loaded_record_def capture_fbp_kept)
qed

lemma getStoredData_saved:
  assumes "map_of (localStorage st) STORAGE_KEY = Some (Json td)" and "distinct (map fst td)"
    and "storage_mode h \<noteq> Unavailable"
  shows "getStoredData h st = Some td"
  using assms by (simp add: getStoredData_def json_parse_id split: storage_mode.split)

subsection \<open>An expired session\<close>

lemma example_extract: "extractUTMsFromURL (example_host\<lparr>now := t\<rparr>) = [(''utm_source'', JStr ''x'')]"
  by (simp add: extractUTMsFromURL_def example_host_def UTM_FIELDS_def trim_def js_space_def
        set_prop_def)

lemma example_getStored: "getStoredData (example_host\<lparr>now := t\<rparr>) example_page = Some example_stored"
  by (rule getStoredData_saved)
     (simp_all add: example_page_def fresh_state_def example_stored_def example_host_def)

lemma example_valid: "isValidTrackerData (Some example_stored)"
  by (simp add: isValidTrackerData_def example_stored_def get_prop_def)

lemma example_consent: "fst (checkConsent default_config h example_page)"
  by (simp add: checkConsent_fst default_config_def)

lemma example_fresh: "\<not> isInitialized example_page"
  by (simp add: example_page_def fresh_state_def)

text \<open>
  C1, at the stored record of the example, whose \<open>last_updated\<close> is \<open>now\<close> minus the
  timeout and one millisecond: the record is valid and expired, the generator yields
  \<open>new-id\<close>, and the record the load produces still has the stored identifier, the
  stored creation and update instants and the stored page count. The properties of the
  stored record are written after the fresh ones in the object literal and replace them.
\<close>

theorem C1_expired_session_keeps_identifier:
  "isValidTrackerData (Some example_stored)
   \<and> get_prop example_stored ''last_updated'' = Some (JNum (now example_host - (SESSION_TIMEOUT_MS default_config + 1)))
   \<and> shouldStartNewSession default_config example_host (get_prop example_stored ''last_updated'')
   \<and> generateUUID example_host = ''new-id''
   \<and> getStoredData example_host example_page = Some example_stored
   \<and> (\<exists>td. fst (initializeTracker default_config example_host example_page) = Some td
          \<and> get_prop td ''uuid'' = Some (JStr ''old-id'')
          \<and> get_prop td ''created_at'' = Some (JNum 1000)
          \<and> get_prop td ''last_updated'' = Some (JNum 1000)
          \<and> get_prop td ''page_views'' = Some (JNum 3))"
proof -
  have h: "example_host\<lparr>now := now example_host\<rparr> = example_host" by simp
  have gs: "getStoredData example_host example_page = Some example_stored"
    using example_getStored[of "now example_host"] by (simp only: h)
  have ex: "extractUTMsFromURL example_host = [(''utm_source'', JStr ''x'')]"
    using example_extract[of "now example_host"] by (simp only: h)
  have lu: "get_prop example_stored ''last_updated'' = Some (JNum 1000)"
    by (simp add: example_stored_def get_prop_def)
  have t: "now example_host - (SESSION_TIMEOUT_MS default_config + 1) = 1000"
    by (simp add: example_host_def SESSION_TIMEOUT_MS_def default_config_def)
  have exp: "shouldStartNewSession default_config example_host (get_prop example_stored ''last_updated'')"
    by (simp add: lu shouldStartNewSession_def example_host_def SESSION_TIMEOUT_MS_def default_config_def)
  have uu: "generateUUID example_host = ''new-id''"
    by (simp add: generateUUID_def example_host_def)
  have sr: "session_record default_config example_host (Some example_stored) [(''utm_source'', JStr ''x'')]
            = new_session example_host (Some example_stored) [(''utm_source'', JStr ''x'')]"
    using exp by (simp add: session_record_def)
  have d: "distinct (map fst example_stored)" by (simp add: example_stored_def)
  have nofbp: "getFbpCookie example_host = None"
    by (simp add: getFbpCookie_def example_host_def trim_def)
  have lr: "loaded_record default_config example_host example_page
            = new_session example_host (Some example_stored) [(''utm_source'', JStr ''x'')]"
    by (simp add: loaded_record_def gs ex sr capture_fbp_def nofbp)
  have g: "\<And>k. get_prop (new_session example_host (Some example_stored) [(''utm_source'', JStr ''x'')]) k =
        (case get_prop [(''utm_source'', JStr ''x'')] k of Some v \<Rightarrow> Some v
         | None \<Rightarrow> (case get_prop example_stored k of Some v \<Rightarrow> Some v
             | None \<Rightarrow> get_prop
                 [ (''uuid'', JStr (generateUUID example_host)),
                   (''created_at'', JNum (now example_host)),
                   (''last_updated'', JNum (now example_host)),
                   (''page_views'', JNum 1),
                   (''current_path'', JStr (location_pathname example_host @ location_search example_host)),
                   (''current_title'', JStr (document_title example_host)) ] k))"
    using d by (subst get_new_session) (simp_all add: example_valid cong: option.case_cong)
  have "fst (initializeTracker default_config example_host example_page)
          = Some (new_session example_host (Some example_stored) [(''utm_source'', JStr ''x'')])"
    using initializeTracker_run(1)[OF example_fresh example_consent, of example_host] by (simp add: lr)
  moreover have "get_prop (new_session example_host (Some example_stored) [(''utm_source'', JStr ''x'')]) ''uuid'' = Some (JStr ''old-id'')"
    by (simp add: g) (simp add: get_prop_def example_stored_def)
  moreover have "get_prop (new_session example_host (Some example_stored) [(''utm_source'', JStr ''x'')]) ''created_at'' = Some (JNum 1000)"
    by (simp add: g) (simp add: get_prop_def example_stored_def)
  moreover have "get_prop (new_session example_host (Some example_stored) [(''utm_source'', JStr ''x'')]) ''last_updated'' = Some (JNum 1000)"
    by (simp add: g) (simp add: get_prop_def example_stored_def)
  moreover have "get_prop (new_session example_host (Some example_stored) [(''utm_source'', JStr ''x'')]) ''page_views'' = Some (JNum 3)"
    by (simp add: g) (simp add: get_prop_def example_stored_def)
  ultimately show ?thesis
    using example_valid exp uu gs lu t by simp
qed

subsection \<open>Continuing a session\<close>

lemma extract_truthy:
  "get_prop (extractUTMsFromURL h) k = Some v \<Longrightarrow> truthy (Some v)"
  by (auto simp: extractUTMsFromURL_def extract_loop_get get_prop_Nil split: option.splits if_splits)

lemma next_page_views_num:
  "- (2 ^ 53) \<le> n \<Longrightarrow> n < 2 ^ 53 \<Longrightarrow> next_page_views h (Some (JNum n)) = JNum (n + 1)"
  by (simp add: next_page_views_def)

lemma session_record_continue:
  assumes "isValidTrackerData (Some d)"
    and "get_prop d ''last_updated'' = Some (JNum lu)"
    and "now h - lu \<le> SESSION_TIMEOUT_MS cfg"
  shows "session_record cfg h (Some d) utms = continued_session h d utms"
proof -
  have "truthy (get_prop d ''last_updated'')"
    using assms(1) by (simp add: isValidTrackerData_def)
  then have "\<not> shouldStartNewSession cfg h (get_prop d ''last_updated'')"
    using assms(2,3) by (simp add: shouldStartNewSession_def)
  then show ?thesis using assms(1) by (simp add: session_record_def)
qed

lemma session_record_expired:
  assumes "get_prop d ''last_updated'' = Some (JNum lu)"
    and "now h - lu > SESSION_TIMEOUT_MS cfg"
  shows "session_record cfg h (Some d) utms = new_session h (Some d) utms"
  using assms by (simp add: session_record_def shouldStartNewSession_def)

lemma initializeTracker_persisted:
  assumes "\<not> isInitialized st" and "fst (checkConsent cfg h st)" and "storage_mode h = Working"
  shows "getStoredData h (snd (initializeTracker cfg h st)) = Some (loaded_record cfg h st)"
proof (rule getStoredData_saved)
  show "map_of (localStorage (snd (initializeTracker cfg h st))) STORAGE_KEY
          = Some (Json (loaded_record cfg h st))"
    using initializeTracker_run(7)[OF assms(1,2)] assms(3) by (simp add: update_conv')
  show "distinct (map fst (loaded_record cfg h st))" by (rule distinct_loaded_record)
  show "storage_mode h \<noteq> Unavailable" using assms(3) by simp
qed

text \<open>
  C2. When the tracker is not initialized, the consent gate is open, and the stored record
  is valid with a numeric \<open>last_updated\<close> no older than the timeout, the load produces a
  record (returned, held in memory and, with working storage, persisted) that keeps the
  stored \<open>uuid\<close> and \<open>created_at\<close>, has \<open>last_updated = now\<close>, has the page count
  \<^verbatim>\<open>(page_views || 0) + 1\<close>, which for a stored number \<open>n\<close> from \<open>- 2 ^ 53\<close> to \<open>2 ^ 53 - 1\<close>
  is \<open>n + 1\<close> (from \<open>2 ^ 53\<close> on the sum of doubles is rounded), holds every value
  the URL supplies, and keeps every recognized field the URL does not supply (for \<open>fbp\<close>:
  when the stored value is non-empty, since an empty one gives way to the cookie).
\<close>

theorem C2_continue_session:
  assumes ni: "\<not> isInitialized st" and cc: "fst (checkConsent cfg h st)"
    and gs: "getStoredData h st = Some d" and v: "isValidTrackerData (Some d)"
    and lu: "get_prop d ''last_updated'' = Some (JNum lu)"
    and recent: "now h - lu \<le> SESSION_TIMEOUT_MS cfg"
  shows "\<exists>td. fst (initializeTracker cfg h st) = Some td
     \<and> trackerData (snd (initializeTracker cfg h st)) = Some td
     \<and> (storage_mode h = Working \<longrightarrow> getStoredData h (snd (initializeTracker cfg h st)) = Some td)
     \<and> get_prop td ''uuid'' = get_prop d ''uuid''
     \<and> get_prop td ''created_at'' = get_prop d ''created_at''
     \<and> get_prop td ''last_updated'' = Some (JNum (now h))
     \<and> get_prop td ''page_views'' = Some (next_page_views h (get_prop d ''page_views''))
     \<and> (\<forall>n. get_prop d ''page_views'' = Some (JNum n) \<and> - (2 ^ 53) \<le> n \<and> n < 2 ^ 53
            \<longrightarrow> get_prop td ''page_views'' = Some (JNum (n + 1)))
     \<and> (\<forall>k x. get_prop (extractUTMsFromURL h) k = Some x \<longrightarrow> get_prop td k = Some x)
     \<and> (\<forall>k. k \<in> set UTM_FIELDS \<and> get_prop (extractUTMsFromURL h) k = None
              \<and> (truthy (get_prop d k) \<or> k \<noteq> ''fbp'')
            \<longrightarrow> get_prop td k = get_prop d k)"
proof -
  let ?u = "extractUTMsFromURL h"
  let ?c = "continued_session h d ?u"
  let ?td = "loaded_record cfg h st"
  have dd: "distinct (map fst d)" using gs by (rule getStoredData_distinct)
  have td: "?td = capture_fbp h ?c"
    by (simp add: loaded_record_def gs session_record_continue[OF v lu recent])
  have gc: "\<And>k. get_prop ?c k =
     (case get_prop ?u k of
        Some v \<Rightarrow> Some v
      | None \<Rightarrow>
          if k = ''current_title'' then Some (JStr (document_title h))
          else if k = ''current_path'' then Some (JStr (location_pathname h @ location_search h))
          else if k = ''page_views'' then Some (next_page_views h (get_prop d ''page_views''))
          else if k = ''last_updated'' then Some (JNum (now h))
          else get_prop d k)"
    by (rule get_continued_session[OF extract_distinct dd])
  have base: "get_prop ?u ''uuid'' = None" "get_prop ?u ''created_at'' = None"
    "get_prop ?u ''last_updated'' = None" "get_prop ?u ''page_views'' = None"
    by (simp_all add: extract_keys UTM_FIELDS_def)
  have 1: "get_prop ?td ''uuid'' = get_prop d ''uuid''"
    by (simp add: td capture_fbp_other gc base)
  have 2: "get_prop ?td ''created_at'' = get_prop d ''created_at''"
    by (simp add: td capture_fbp_other gc base)
  have 3: "get_prop ?td ''last_updated'' = Some (JNum (now h))"
    by (simp add: td capture_fbp_other gc base)
  have 4: "get_prop ?td ''page_views'' = Some (next_page_views h (get_prop d ''page_views''))"
    by (simp add: td capture_fbp_other gc base)
  have 5: "get_prop ?td k = Some x" if "get_prop ?u k = Some x" for k x
  proof -
    have "get_prop ?c k = Some x" using that by (simp add: gc)
    moreover have "truthy (Some x)" using that by (rule extract_truthy)
    ultimately show ?thesis by (simp add: td capture_fbp_kept)
  qed
  have 6: "get_prop ?td k = get_prop d k"
    if "k \<in> set UTM_FIELDS" "get_prop ?u k = None" "truthy (get_prop d k) \<or> k \<noteq> ''fbp''" for k
  proof -
    have "get_prop ?c k = get_prop d k"
      using that(2) UTM_FIELDS_not_base[OF that(1)] by (simp add: gc)
    then show ?thesis using that(3) by (simp add: td capture_fbp_kept)
  qed
  have "fst (initializeTracker cfg h st) = Some ?td"
    and "trackerData (snd (initializeTracker cfg h st)) = Some ?td"
    using initializeTracker_run[OF ni cc] by simp_all
  moreover have "storage_mode h = Working \<longrightarrow>
      getStoredData h (snd (initializeTracker cfg h st)) = Some ?td"
    using initializeTracker_persisted[OF ni cc] by simp
  ultimately show ?thesis
    using 1 2 3 4 5 6 by (intro exI[of _ ?td]) (simp add: next_page_views_num)
qed

text \<open>
  The example one millisecond before the timeout: stored \<open>utm_source = old\<close>,
  \<open>utm_medium = m\<close>, URL \<open>utm_source = x\<close>.
\<close>

theorem C2_continue_session_witness:
  "\<exists>td. fst (initializeTracker default_config (example_host\<lparr>now := 1800999\<rparr>) example_page) = Some td
     \<and> getStoredData (example_host\<lparr>now := 1800999\<rparr>)
          (snd (initializeTracker default_config (example_host\<lparr>now := 1800999\<rparr>) example_page)) = Some td
     \<and> get_prop td ''uuid'' = Some (JStr ''old-id'')
     \<and> get_prop td ''created_at'' = Some (JNum 1000)
     \<and> get_prop td ''last_updated'' = Some (JNum 1800999)
     \<and> get_prop td ''page_views'' = Some (JNum 4)
     \<and> get_prop td ''utm_source'' = Some (JStr ''x'')
     \<and> get_prop td ''utm_medium'' = Some (JStr ''m'')"
proof -
  let ?h = "example_host\<lparr>now := 1800999\<rparr>"
  have lu: "get_prop example_stored ''last_updated'' = Some (JNum 1000)"
    by (simp add: example_stored_def get_prop_def)
  have recent: "now ?h - 1000 \<le> SESSION_TIMEOUT_MS default_config"
    by (simp add: SESSION_TIMEOUT_MS_def default_config_def)
  have wk: "storage_mode ?h = Working" by (simp add: example_host_def)
  have vals: "get_prop example_stored ''uuid'' = Some (JStr ''old-id'')"
    "get_prop example_stored ''created_at'' = Some (JNum 1000)"
    "get_prop example_stored ''page_views'' = Some (JNum 3)"
    "get_prop example_stored ''utm_medium'' = Some (JStr ''m'')"
    by (simp_all add: example_stored_def get_prop_def)
  have ex: "get_prop (extractUTMsFromURL ?h) ''utm_source'' = Some (JStr ''x'')"
    "get_prop (extractUTMsFromURL ?h) ''utm_medium'' = None"
    by (simp_all add: example_extract get_prop_def)
  have mem: "''utm_medium'' \<in> set UTM_FIELDS" by (simp add: UTM_FIELDS_def)
  from C2_continue_session[OF example_fresh example_consent example_getStored example_valid lu recent]
  obtain td where
    "fst (initializeTracker default_config ?h example_page) = Some td"
    "storage_mode ?h = Working \<longrightarrow>
       getStoredData ?h (snd (initializeTracker default_config ?h example_page)) = Some td"
    "get_prop td ''uuid'' = get_prop example_stored ''uuid''"
    "get_prop td ''created_at'' = get_prop example_stored ''created_at''"
    "get_prop td ''last_updated'' = Some (JNum (now ?h))"
    "\<forall>n. get_prop example_stored ''page_views'' = Some (JNum n) \<and> - (2 ^ 53) \<le> n \<and> n < 2 ^ 53
         \<longrightarrow> get_prop td ''page_views'' = Some (JNum (n + 1))"
    "\<forall>k x. get_prop (extractUTMsFromURL ?h) k = Some x \<longrightarrow> get_prop td k = Some x"
    "\<forall>k. k \<in> set UTM_FIELDS \<and> get_prop (extractUTMsFromURL ?h) k = None
              \<and> (truthy (get_prop example_stored k) \<or> k \<noteq> ''fbp'')
            \<longrightarrow> get_prop td k = get_prop example_stored k"
    by blast
  then show ?thesis
    using wk vals ex mem by (intro exI[of _ td]) auto
qed

subsection \<open>Sticky UTM fields\<close>

lemma initializeTracker_blocked_storage:
  "\<not> fst (checkConsent cfg h st) \<or> isInitialized st \<Longrightarrow>
   localStorage (snd (initializeTracker cfg h st)) = localStorage st"
  by (cases "isInitialized st") (auto simp: initializeTracker_done initializeTracker_blocked)

text \<open>
  C4. Whatever the state of the tracker and the configuration: when storage holds a valid
  record in which a recognized field has a non-empty value, and the URL of the load
  supplies no value for that field, the record in storage after \<^verbatim>\<open>initializeTracker\<close> has
  that field with that value. When the load gets past the consent gate, the record in
  memory has it too (in the continue branch and in the create branch alike); otherwise
  the record in memory is left as it was.
\<close>

theorem C4_stored_utm_sticky:
  assumes gs: "getStoredData h st = Some d" and v: "isValidTrackerData (Some d)"
    and k: "k \<in> set UTM_FIELDS" and dk: "get_prop d k = Some x" and set: "truthy (Some x)"
    and nk: "get_prop (extractUTMsFromURL h) k = None"
  shows "(\<exists>d'. getStoredData h (snd (initializeTracker cfg h st)) = Some d' \<and> get_prop d' k = Some x)
     \<and> (if \<not> isInitialized st \<and> fst (checkConsent cfg h st)
         then \<exists>td. trackerData (snd (initializeTracker cfg h st)) = Some td \<and> get_prop td k = Some x
         else trackerData (snd (initializeTracker cfg h st)) = trackerData st)"
proof (cases "\<not> isInitialized st \<and> fst (checkConsent cfg h st)")
  case True
  then have ni: "\<not> isInitialized st" and cc: "fst (checkConsent cfg h st)" by simp_all
  have kept: "get_prop (loaded_record cfg h st) k = Some x"
    using gs v k dk set nk by (simp add: loaded_record_utm_kept)
  have mem: "trackerData (snd (initializeTracker cfg h st)) = Some (loaded_record cfg h st)"
    using initializeTracker_run[OF ni cc] by simp
  have "\<exists>d'. getStoredData h (snd (initializeTracker cfg h st)) = Some d' \<and> get_prop d' k = Some x"
  proof (cases "storage_mode h = Working")
    case True
    then show ?thesis using initializeTracker_persisted[OF ni cc] kept by simp
  next
    case False
    then have "localStorage (snd (initializeTracker cfg h st)) = localStorage st"
      using initializeTracker_run(7)[OF ni cc] by simp
    then have "getStoredData h (snd (initializeTracker cfg h st)) = getStoredData h st"
      by (rule getStoredData_frame)
    then show ?thesis using gs dk by simp
  qed
  then show ?thesis using True mem kept by simp
next
  case False
  then have ls: "localStorage (snd (initializeTracker cfg h st)) = localStorage st"
    by (intro initializeTracker_blocked_storage) auto
  have "getStoredData h (snd (initializeTracker cfg h st)) = getStoredData h st"
    using ls by (rule getStoredData_frame)
  moreover have "trackerData (snd (initializeTracker cfg h st)) = trackerData st"
    using False by (cases "isInitialized st") (auto simp: initializeTracker_done initializeTracker_blocked)
  ultimately show ?thesis using False gs dk by auto
qed

text \<open>The example: stored \<open>utm_medium = m\<close>, URL with \<open>utm_source\<close> only.\<close>

theorem C4_stored_utm_sticky_witness:
  "(\<exists>d'. getStoredData example_host (snd (initializeTracker default_config example_host example_page)) = Some d'
         \<and> get_prop d' ''utm_medium'' = Some (JStr ''m''))
   \<and> (\<exists>td. trackerData (snd (initializeTracker default_config example_host example_page)) = Some td
         \<and> get_prop td ''utm_medium'' = Some (JStr ''m''))"
proof -
  have h: "example_host\<lparr>now := now example_host\<rparr> = example_host" by simp
  have gs: "getStoredData example_host example_page = Some example_stored"
    using example_getStored[of "now example_host"] by (simp only: h)
  have nk: "get_prop (extractUTMsFromURL example_host) ''utm_medium'' = None"
    using example_extract[of "now example_host"] by (simp add: h get_prop_def)
  have k: "''utm_medium'' \<in> set UTM_FIELDS" by (simp add: UTM_FIELDS_def)
  have dk: "get_prop example_stored ''utm_medium'' = Some (JStr ''m'')"
    by (simp add: example_stored_def get_prop_def)
  have tr: "truthy (Some (JStr ''m''))" by simp
  show ?thesis
    using C4_stored_utm_sticky[OF gs example_valid k dk tr nk, of default_config]
      example_fresh example_consent[of example_host]
    by simp
qed

subsection \<open>Refreshing before initialization\<close>

lemma decorate_link_null: "decorate_link cfg h None l = (l, False)"
  by (simp add: decorate_link_def split: option.split)

text \<open>
  C10. While the record in memory is absent, \<^verbatim>\<open>refreshLinks\<close> and \<^verbatim>\<open>refreshFields\<close> both
  return 0 and leave the whole state, so every link and every form control, as it was.
  No exception reaches the caller: each one raised is a branch of the model that the
  source catches.
\<close>

theorem C10_refresh_before_initialization:
  assumes "trackerData st = None"
  shows "refreshLinks cfg h st = (0, st) \<and> refreshFields cfg h st = (0, st)"
  using assms
  by (simp add: refreshLinks_def refreshFields_def decorateLinks_def populateUTMFields_def
        decorate_link_null Let_def comp_def)

theorem C10_refresh_before_initialization_witness:
  "trackerData example_document = None
   \<and> refreshLinks default_config example_host example_document = (0, example_document)
   \<and> refreshFields default_config example_host example_document = (0, example_document)
   \<and> links example_document = [example_target_link, example_payment_link]
   \<and> elements example_document = [example_input]"
proof -
  have n: "trackerData example_document = None"
    by (simp add: example_document_def fresh_state_def)
  show ?thesis
    using C10_refresh_before_initialization[OF n, of default_config example_host] n
    by (simp add: example_document_def fresh_state_def)
qed

subsection \<open>Reporting\<close>

lemma initializeTracker_requests:
  assumes "\<not> isInitialized st" and "fst (checkConsent cfg h st)"
  shows "requests (snd (initializeTracker cfg h st)) =
           requests st @
           (if enablePageViewTracking cfg \<and> has_fetch h
            then \<lparr> req_call = SessionCall, req_url = apiBaseUrl cfg @ ''/sessions'',
                   req_body = session_body h (loaded_record cfg h st) \<rparr> #
                 (if session_fetch h = Response True True
                  then [\<lparr> req_call = EventCall,
                          req_url = apiBaseUrl cfg @ ''/sessions/'' @
                                    to_string h (get_prop (loaded_record cfg h st) ''uuid'') @ ''/events'',
                          req_body = event_body h (loaded_record cfg h st)
                                       (location_pathname h @ location_search h) (document_title h)
                                       (extractUTMsFromURL h) \<rparr>]
                  else [])
            else [])"
proof -
  obtain st1 where cc: "checkConsent cfg h st = (True, st1)"
    using assms(2) by (cases "checkConsent cfg h st") simp
  have st1: "st1 = st\<lparr>consentGiven := True\<rparr>"
    using checkConsent_snd[of cfg h st] cc by simp
  have gs: "getStoredData h st1 = getStoredData h st"
    by (rule getStoredData_frame) (simp add: st1)
  have lr: "loaded_record cfg h (st\<lparr>consentGiven := True\<rparr>) = loaded_record cfg h st"
    by (rule loaded_record_frame) simp
  show ?thesis
    using assms(1)
    by (simp add: initializeTracker_def cc Let_def gs loaded_record_def[symmetric] lr
          split_beta createOrUpdateSession_snd createOrUpdateSession_fst logPageViewEvent_snd
          decorateLinks_snd populateUTMFields_frame saveStoredData_frame observeDOMChanges_eq st1)
qed

text \<open>
  C6, as the code has it. When a load gets past the consent gate, the requests it issues
  are: none when reporting is disabled or \<^verbatim>\<open>fetch\<close> is missing; otherwise the session call,
  followed by the page-view call exactly when the session call was answered with an
  \<^verbatim>\<open>ok\<close> status and a body that \<^verbatim>\<open>response.json()\<close> could read. After a rejected request,
  a response that is not \<^verbatim>\<open>ok\<close>, or an \<^verbatim>\<open>ok\<close> response whose body is not JSON, no page-view
  request is issued.
\<close>

theorem C6_page_view_after_session_call:
  assumes "\<not> isInitialized st" and "fst (checkConsent cfg h st)"
  shows "(\<exists>new. requests (snd (initializeTracker cfg h st)) = requests st @ new
           \<and> map req_call new =
               (if enablePageViewTracking cfg \<and> has_fetch h
                then SessionCall # (if session_fetch h = Response True True then [EventCall] else [])
                else [])
           \<and> (EventCall \<in> set (map req_call new) \<longleftrightarrow>
                enablePageViewTracking cfg \<and> has_fetch h \<and> session_fetch h = Response True True))
     \<and> (\<not> http_success (session_fetch h) \<longrightarrow>
           map req_call (requests (snd (initializeTracker cfg h st))) =
           map req_call (requests st) @
             (if enablePageViewTracking cfg \<and> has_fetch h then [SessionCall] else []))"
proof -
  let ?new = "(if enablePageViewTracking cfg \<and> has_fetch h
            then \<lparr> req_call = SessionCall, req_url = apiBaseUrl cfg @ ''/sessions'',
                   req_body = session_body h (loaded_record cfg h st) \<rparr> #
                 (if session_fetch h = Response True True
                  then [\<lparr> req_call = EventCall,
                          req_url = apiBaseUrl cfg @ ''/sessions/'' @
                                    to_string h (get_prop (loaded_record cfg h st) ''uuid'') @ ''/events'',
                          req_body = event_body h (loaded_record cfg h st)
                                       (location_pathname h @ location_search h) (document_title h)
                                       (extractUTMsFromURL h) \<rparr>]
                  else [])
            else [])"
  have r: "requests (snd (initializeTracker cfg h st)) = requests st @ ?new"
    using assms by (rule initializeTracker_requests)
  have m: "map req_call ?new =
               (if enablePageViewTracking cfg \<and> has_fetch h
                then SessionCall # (if session_fetch h = Response True True then [EventCall] else [])
                else [])"
    by simp
  have e: "EventCall \<in> set (map req_call ?new) \<longleftrightarrow>
                enablePageViewTracking cfg \<and> has_fetch h \<and> session_fetch h = Response True True"
    unfolding m by auto
  have f: "\<not> http_success (session_fetch h) \<Longrightarrow> session_fetch h \<noteq> Response True True"
    by (auto simp: http_success_def)
  have "\<exists>new. requests (snd (initializeTracker cfg h st)) = requests st @ new
           \<and> map req_call new =
               (if enablePageViewTracking cfg \<and> has_fetch h
                then SessionCall # (if session_fetch h = Response True True then [EventCall] else [])
                else [])
           \<and> (EventCall \<in> set (map req_call new) \<longleftrightarrow>
                enablePageViewTracking cfg \<and> has_fetch h \<and> session_fetch h = Response True True)"
    using r m e by blast
  moreover have "\<not> http_success (session_fetch h) \<longrightarrow>
           map req_call (requests (snd (initializeTracker cfg h st))) =
           map req_call (requests st) @
             (if enablePageViewTracking cfg \<and> has_fetch h then [SessionCall] else [])"
    using initializeTracker_run(10)[OF assms] f by auto
  ultimately show ?thesis by blast
qed

text \<open>
  The example page with three answers to the session call: \<^verbatim>\<open>ok\<close> with a JSON body,
  status not \<^verbatim>\<open>ok\<close>, and a rejected request.
\<close>

theorem C6_page_view_after_session_call_witness:
  "map req_call (requests (snd (initializeTracker default_config example_host example_page)))
     = [SessionCall, EventCall]
   \<and> map req_call (requests (snd (initializeTracker default_config
         (example_host\<lparr>session_fetch := Response False True\<rparr>) example_page)))
     = [SessionCall]
   \<and> map req_call (requests (snd (initializeTracker default_config
         (example_host\<lparr>session_fetch := NetworkError\<rparr>) example_page)))
     = [SessionCall]"
proof -
  have r0: "requests example_page = []" by (simp add: example_page_def fresh_state_def)
  have en: "enablePageViewTracking default_config" by (simp add: default_config_def)
  have hf: "has_fetch example_host" "session_fetch example_host = Response True True"
    by (simp_all add: example_host_def)
  have hf1: "has_fetch (example_host\<lparr>session_fetch := Response False True\<rparr>)"
    "has_fetch (example_host\<lparr>session_fetch := NetworkError\<rparr>)"
    by (simp_all add: example_host_def)
  show ?thesis
    using C6_page_view_after_session_call[OF example_fresh example_consent, of example_host]
      C6_page_view_after_session_call[OF example_fresh example_consent,
        of "example_host\<lparr>session_fetch := Response False True\<rparr>"]
      C6_page_view_after_session_call[OF example_fresh example_consent,
        of "example_host\<lparr>session_fetch := NetworkError\<rparr>"]
      r0 en hf hf1
    by (auto simp: http_success_def)
qed

text \<open>
  Against C6 as stated: the session call is answered with an \<^verbatim>\<open>ok\<close> status, so it
  succeeded at HTTP level, but the body is not JSON; reporting is enabled, and the load
  issues the session call alone.
\<close>

theorem C6_counterexample:
  "http_success (session_fetch (example_host\<lparr>session_fetch := Response True False\<rparr>))
   \<and> enablePageViewTracking default_config
   \<and> map req_call (requests (snd (initializeTracker default_config
         (example_host\<lparr>session_fetch := Response True False\<rparr>) example_page)))
     = [SessionCall]"
proof -
  have r0: "requests example_page = []" by (simp add: example_page_def fresh_state_def)
  have en: "enablePageViewTracking default_config" by (simp add: default_config_def)
  have hf: "has_fetch (example_host\<lparr>session_fetch := Response True False\<rparr>)"
    by (simp add: example_host_def)
  show ?thesis
    using initializeTracker_run(10)[OF example_fresh example_consent,
        of "example_host\<lparr>session_fetch := Response True False\<rparr>"] r0 en hf
    by (simp add: http_success_def)
qed

subsection \<open>Re-initialization\<close>

text \<open>
  C9, as the code has it. \<^verbatim>\<open>reinitialize\<close> is \<^verbatim>\<open>initializeTracker\<close> itself, guard included.
  On a tracker that is already initialized it returns the record in memory and changes
  nothing. It runs the initialization sequence only on a tracker that is not
  initialized (before the first load completed, after a blocked attempt, after
  \<^verbatim>\<open>revokeConsent\<close>): then, past the consent gate, it produces the record of the session
  rules, marks the tracker initialized, reports, decorates and arms the observer; and
  before the gate it leaves the attempt pending.
\<close>

theorem C9_reinitialize_guarded:
  "(if isInitialized st then reinitialize cfg h st = (trackerData st, st)
    else if fst (checkConsent cfg h st) then
      fst (reinitialize cfg h st) = Some (loaded_record cfg h st)
      \<and> trackerData (snd (reinitialize cfg h st)) = Some (loaded_record cfg h st)
      \<and> isInitialized (snd (reinitialize cfg h st))
      \<and> map req_call (requests (snd (reinitialize cfg h st))) =
           map req_call (requests st) @
           (if enablePageViewTracking cfg \<and> has_fetch h
            then SessionCall # (if session_fetch h = Response True True then [EventCall] else [])
            else [])
      \<and> links (snd (reinitialize cfg h st)) =
           (if enableLinkDecoration cfg
            then map (\<lambda>l. fst (decorate_link cfg h (Some (loaded_record cfg h st)) l)) (links st)
            else links st)
      \<and> observers (snd (reinitialize cfg h st)) =
           observers st + (if has_MutationObserver h then 1 else 0)
    else reinitialize cfg h st =
           (None, st\<lparr>consentGiven := False, pendingInitialization := True\<rparr>))
   \<and> \<not> isInitialized (revokeConsent cfg h0 st)"
proof -
  have "\<not> isInitialized (revokeConsent cfg h0 st)"
    by (simp add: revokeConsent_def Let_def)
  moreover have "reinitialize cfg h st = (trackerData st, st)" if "isInitialized st"
    using that by (simp add: reinitialize_def initializeTracker_done)
  moreover have "reinitialize cfg h st =
           (None, st\<lparr>consentGiven := False, pendingInitialization := True\<rparr>)"
    if "\<not> isInitialized st" "\<not> fst (checkConsent cfg h st)"
    using that by (simp add: reinitialize_def initializeTracker_blocked)
  ultimately show ?thesis
    using initializeTracker_run[of st cfg h] by (simp add: reinitialize_def)
qed

text \<open>The example page after its first load, and a second call two minutes later.\<close>

theorem C9_reinitialize_guarded_witness:
  "\<not> isInitialized example_page
   \<and> fst (reinitialize default_config example_host example_page)
       = Some (loaded_record default_config example_host example_page)
   \<and> isInitialized (snd (reinitialize default_config example_host example_page))
   \<and> map req_call (requests (snd (reinitialize default_config example_host example_page)))
       = [SessionCall, EventCall]
   \<and> reinitialize default_config (example_host\<lparr>now := 1921001\<rparr>)
         (snd (reinitialize default_config example_host example_page))
       = (trackerData (snd (reinitialize default_config example_host example_page)),
          snd (reinitialize default_config example_host example_page))"
proof -
  let ?st1 = "snd (reinitialize default_config example_host example_page)"
  have r0: "requests example_page = []" by (simp add: example_page_def fresh_state_def)
  have en: "enablePageViewTracking default_config" by (simp add: default_config_def)
  have hf: "has_fetch example_host" "session_fetch example_host = Response True True"
    by (simp_all add: example_host_def)
  have a: "fst (reinitialize default_config example_host example_page)
       = Some (loaded_record default_config example_host example_page)
     \<and> isInitialized ?st1
     \<and> map req_call (requests ?st1) = [SessionCall, EventCall]"
    using C9_reinitialize_guarded[of example_page default_config example_host example_host]
      example_fresh example_consent[of example_host] r0 en hf
    by simp
  then have "isInitialized ?st1" by simp
  then have "reinitialize default_config (example_host\<lparr>now := 1921001\<rparr>) ?st1
       = (trackerData ?st1, ?st1)"
    using C9_reinitialize_guarded[of ?st1 default_config "example_host\<lparr>now := 1921001\<rparr>" example_host]
    by simp
  then show ?thesis using a example_fresh by simp
qed

text \<open>
  Against C9 as stated: after the first load of the example page the tracker is
  initialized; \<^verbatim>\<open>reinitialize\<close>, called two minutes later, returns the record in memory and
  leaves the state as it was: the record is not updated and no request is added to the
  two of the first load.
\<close>

theorem C9_counterexample:
  "isInitialized (snd (initializeTracker default_config example_host example_page))
   \<and> snd (reinitialize default_config (example_host\<lparr>now := 1921001\<rparr>)
            (snd (initializeTracker default_config example_host example_page)))
       = snd (initializeTracker default_config example_host example_page)
   \<and> map req_call (requests (snd (reinitialize default_config (example_host\<lparr>now := 1921001\<rparr>)
            (snd (initializeTracker default_config example_host example_page)))))
       = [SessionCall, EventCall]"
proof -
  let ?st1 = "snd (initializeTracker default_config example_host example_page)"
  have r0: "requests example_page = []" by (simp add: example_page_def fresh_state_def)
  have en: "enablePageViewTracking default_config" by (simp add: default_config_def)
  have hf: "has_fetch example_host" "session_fetch example_host = Response True True"
    by (simp_all add: example_host_def)
  have i: "isInitialized ?st1"
    using initializeTracker_run(4)[OF example_fresh example_consent, of example_host] .
  have r: "map req_call (requests ?st1) = [SessionCall, EventCall]"
    using initializeTracker_run(10)[OF example_fresh example_consent, of example_host] r0 en hf
    by simp
  have "reinitialize default_config (example_host\<lparr>now := 1921001\<rparr>) ?st1 = (trackerData ?st1, ?st1)"
    using i by (simp add: reinitialize_def initializeTracker_done)
  then show ?thesis using i r by simp
qed

subsection \<open>Consent\<close>

lemma giveConsent_working:
  assumes "storage_mode h = Working"
  shows "giveConsent cfg h st =
     (let st2 = st\<lparr>consentGiven := True,
                   localStorage := AList.update (consentStorageKey cfg) (Text ''true'') (localStorage st)\<rparr>
      in if pendingInitialization st \<and> \<not> isInitialized st
         then snd (initializeTracker cfg h st2) else st2)"
  using assms by (simp add: giveConsent_def Let_def)

lemma checkConsent_after_sentinel:
  assumes "storage_mode h = Working"
  shows "fst (checkConsent cfg h
           (st\<lparr>consentGiven := b,
               localStorage := AList.update (consentStorageKey cfg) (Text ''true'') (localStorage st)\<rparr>))"
  using assms by (simp add: checkConsent_fst storedConsent_def update_conv')

lemma new_session_fresh_fields:
  assumes "distinct (map fst utms)"
    and "get_prop utms ''uuid'' = None" and "get_prop utms ''created_at'' = None"
    and "get_prop utms ''last_updated'' = None" and "get_prop utms ''page_views'' = None"
  shows "get_prop (new_session h None utms) ''uuid'' = Some (JStr (generateUUID h))"
    and "get_prop (new_session h None utms) ''created_at'' = Some (JNum (now h))"
    and "get_prop (new_session h None utms) ''last_updated'' = Some (JNum (now h))"
    and "get_prop (new_session h None utms) ''page_views'' = Some (JNum 1)"
  using assms
  by (simp_all add: get_new_session isValidTrackerData_def) (simp_all add: get_prop_def)

lemma loaded_record_no_record:
  assumes "getStoredData h st = None"
  shows "loaded_record cfg h st = capture_fbp h (new_session h None (extractUTMsFromURL h))"
    and "get_prop (loaded_record cfg h st) ''uuid'' = Some (JStr (generateUUID h))"
    and "get_prop (loaded_record cfg h st) ''created_at'' = Some (JNum (now h))"
    and "get_prop (loaded_record cfg h st) ''last_updated'' = Some (JNum (now h))"
    and "get_prop (loaded_record cfg h st) ''page_views'' = Some (JNum 1)"
proof -
  show lr: "loaded_record cfg h st = capture_fbp h (new_session h None (extractUTMsFromURL h))"
    using assms by (simp add: loaded_record_def session_record_def)
  have base: "get_prop (extractUTMsFromURL h) ''uuid'' = None"
    "get_prop (extractUTMsFromURL h) ''created_at'' = None"
    "get_prop (extractUTMsFromURL h) ''last_updated'' = None"
    "get_prop (extractUTMsFromURL h) ''page_views'' = None"
    by (simp_all add: extract_keys UTM_FIELDS_def)
  note nf = new_session_fresh_fields[OF extract_distinct base]
  show "get_prop (loaded_record cfg h st) ''uuid'' = Some (JStr (generateUUID h))"
    by (simp add: lr capture_fbp_other nf)
  show "get_prop (loaded_record cfg h st) ''created_at'' = Some (JNum (now h))"
    by (simp add: lr capture_fbp_other nf)
  show "get_prop (loaded_record cfg h st) ''last_updated'' = Some (JNum (now h))"
    by (simp add: lr capture_fbp_other nf)
  show "get_prop (loaded_record cfg h st) ''page_views'' = Some (JNum 1)"
    by (simp add: lr capture_fbp_other nf)
qed

lemma revokeConsent_fields:
  "trackerData (revokeConsent cfg h st) = None"
  "window_lmvTrackerData (revokeConsent cfg h st) = None"
  "isInitialized (revokeConsent cfg h st) = False"
  "consentGiven (revokeConsent cfg h st) = False"
  "pendingInitialization (revokeConsent cfg h st) = pendingInitialization st"
  "requests (revokeConsent cfg h st) = requests st"
  "localStorage (revokeConsent cfg h st) =
     (if storage_mode h = Unavailable then localStorage st
      else AList.delete STORAGE_KEY (AList.delete (consentStorageKey cfg) (localStorage st)))"
  by (simp_all add: revokeConsent_def Let_def split: storage_mode.split)

lemma getStoredData_after_revoke:
  assumes "storage_mode h \<noteq> Unavailable"
  shows "getStoredData h'
           ((revokeConsent cfg h st)\<lparr>consentGiven := b,
               localStorage := AList.update (consentStorageKey cfg) (Text ''true'')
                                 (localStorage (revokeConsent cfg h st))\<rparr>) = None"
  using assms
  by (simp add: getStoredData_def revokeConsent_fields update_conv' delete_conv'
        split: storage_mode.split)







text \<open>
  What \<^verbatim>\<open>revokeConsent\<close> does in general, and what a later \<^verbatim>\<open>giveConsent\<close> makes of it.
  \<^verbatim>\<open>revokeConsent\<close> clears the record in memory and its exposed copies, marks the tracker
  uninitialized and consent as not given, and, unless storage is unavailable, removes
  the consent item and the tracking item. It leaves the pending flag as it was, and
  that flag alone decides what \<^verbatim>\<open>giveConsent\<close> (working storage) does next: set, the
  initialization runs and starts a brand-new session; not set, \<^verbatim>\<open>giveConsent\<close> only
  records the consent.
\<close>

lemma revokeConsent_then_giveConsent:
  "trackerData (revokeConsent cfg h st) = None
   \<and> window_lmvTrackerData (revokeConsent cfg h st) = None
   \<and> getSessionData (revokeConsent cfg h st) = None
   \<and> getSessionUUID (revokeConsent cfg h st) = None
   \<and> \<not> isInitialized (revokeConsent cfg h st)
   \<and> \<not> hasConsent (revokeConsent cfg h st)
   \<and> pendingInitialization (revokeConsent cfg h st) = pendingInitialization st
   \<and> (storage_mode h \<noteq> Unavailable \<longrightarrow>
        map_of (localStorage (revokeConsent cfg h st)) STORAGE_KEY = None
        \<and> map_of (localStorage (revokeConsent cfg h st)) (consentStorageKey cfg) = None
        \<and> (storage_mode h' = Working \<longrightarrow>
             (if pendingInitialization st then
                isInitialized (giveConsent cfg h' (revokeConsent cfg h st))
                \<and> (\<exists>td. trackerData (giveConsent cfg h' (revokeConsent cfg h st)) = Some td
                      \<and> td = capture_fbp h' (new_session h' None (extractUTMsFromURL h'))
                      \<and> get_prop td ''uuid'' = Some (JStr (generateUUID h'))
                      \<and> get_prop td ''created_at'' = Some (JNum (now h'))
                      \<and> get_prop td ''last_updated'' = Some (JNum (now h'))
                      \<and> get_prop td ''page_views'' = Some (JNum 1))
              else
                \<not> isInitialized (giveConsent cfg h' (revokeConsent cfg h st))
                \<and> trackerData (giveConsent cfg h' (revokeConsent cfg h st)) = None
                \<and> requests (giveConsent cfg h' (revokeConsent cfg h st)) = requests st
                \<and> hasConsent (giveConsent cfg h' (revokeConsent cfg h st)))))"
proof -
  let ?r = "revokeConsent cfg h st"
  have mem: "trackerData ?r = None \<and> window_lmvTrackerData ?r = None
     \<and> getSessionData ?r = None \<and> getSessionUUID ?r = None
     \<and> \<not> isInitialized ?r \<and> \<not> hasConsent ?r
     \<and> pendingInitialization ?r = pendingInitialization st"
    by (simp add: revokeConsent_fields getSessionData_def getSessionUUID_def hasConsent_def)
  have keys: "map_of (localStorage ?r) STORAGE_KEY = None
        \<and> map_of (localStorage ?r) (consentStorageKey cfg) = None"
    if "storage_mode h \<noteq> Unavailable"
    using that by (simp add: revokeConsent_fields delete_conv')
  have give: "(if pendingInitialization st then
                isInitialized (giveConsent cfg h' ?r)
                \<and> (\<exists>td. trackerData (giveConsent cfg h' ?r) = Some td
                      \<and> td = capture_fbp h' (new_session h' None (extractUTMsFromURL h'))
                      \<and> get_prop td ''uuid'' = Some (JStr (generateUUID h'))
                      \<and> get_prop td ''created_at'' = Some (JNum (now h'))
                      \<and> get_prop td ''last_updated'' = Some (JNum (now h'))
                      \<and> get_prop td ''page_views'' = Some (JNum 1))
              else
                \<not> isInitialized (giveConsent cfg h' ?r)
                \<and> trackerData (giveConsent cfg h' ?r) = None
                \<and> requests (giveConsent cfg h' ?r) = requests st
                \<and> hasConsent (giveConsent cfg h' ?r))"
    if av: "storage_mode h \<noteq> Unavailable" and wk: "storage_mode h' = Working"
  proof (cases "pendingInitialization st")
    case True
    let ?st2 = "?r\<lparr>consentGiven := True,
                   localStorage := AList.update (consentStorageKey cfg) (Text ''true'') (localStorage ?r)\<rparr>"
    have g: "giveConsent cfg h' ?r = snd (initializeTracker cfg h' ?st2)"
      using True by (simp add: giveConsent_working[OF wk] Let_def revokeConsent_fields)
    have ni2: "\<not> isInitialized ?st2" by (simp add: revokeConsent_fields)
    have cc2: "fst (checkConsent cfg h' ?st2)"
      using checkConsent_after_sentinel[OF wk, of cfg ?r True] by simp
    have none: "getStoredData h' ?st2 = None"
      using av by (rule getStoredData_after_revoke)
    note run = initializeTracker_run[OF ni2 cc2]
    note lr = loaded_record_no_record[OF none, of cfg]
    show ?thesis
      unfolding g using True run(2,4) lr by simp
  next
    case False
    then show ?thesis
      by (simp add: giveConsent_working[OF wk] Let_def revokeConsent_fields hasConsent_def)
  qed
  show ?thesis using mem keys give by blast
qed

text \<open>
  The path on which it works. The example page under required consent: the load is
  blocked, consent is given (the first session starts), revoked, and given again. The
  pending flag is still set from the blocked load, and the second \<^verbatim>\<open>giveConsent\<close> starts
  a new session.
\<close>

lemma revoke_then_give_after_blocked_load:
  "pendingInitialization (giveConsent consent_config example_host
       (snd (initializeTracker consent_config example_host example_page)))
   \<and> map_of (localStorage (revokeConsent consent_config example_host
         (giveConsent consent_config example_host
           (snd (initializeTracker consent_config example_host example_page))))) STORAGE_KEY = None
   \<and> map_of (localStorage (revokeConsent consent_config example_host
         (giveConsent consent_config example_host
           (snd (initializeTracker consent_config example_host example_page))))) ''lmv_consent_given'' = None
   \<and> getSessionData (revokeConsent consent_config example_host
         (giveConsent consent_config example_host
           (snd (initializeTracker consent_config example_host example_page)))) = None
   \<and> (\<exists>td. trackerData (giveConsent consent_config example_host
          (revokeConsent consent_config example_host
            (giveConsent consent_config example_host
              (snd (initializeTracker consent_config example_host example_page))))) = Some td
         \<and> get_prop td ''uuid'' = Some (JStr ''new-id'')
         \<and> get_prop td ''page_views'' = Some (JNum 1))"
proof -
  let ?b = "example_page\<lparr>consentGiven := False, pendingInitialization := True\<rparr>"
  let ?w = "giveConsent consent_config example_host
              (snd (initializeTracker consent_config example_host example_page))"
  have rc: "requireConsent consent_config" by (simp add: consent_config_def)
  have nc: "storedConsent consent_config example_host example_page \<noteq> Some (Text ''true'')"
    by (simp add: storedConsent_def example_host_def example_page_def fresh_state_def
          consent_config_def default_config_def STORAGE_KEY_def)
  have wk: "storage_mode example_host = Working" by (simp add: example_host_def)
  have av: "storage_mode example_host \<noteq> Unavailable" by (simp add: example_host_def)
  have ck: "consentStorageKey consent_config = ''lmv_consent_given''"
    by (simp add: consent_config_def default_config_def)
  have uu: "generateUUID example_host = ''new-id''"
    by (simp add: generateUUID_def example_host_def)
  have blocked: "\<not> fst (checkConsent consent_config example_host example_page)"
    using rc nc by (simp add: checkConsent_fst)
  have b: "snd (initializeTracker consent_config example_host example_page) = ?b"
    using initializeTracker_blocked[OF example_fresh blocked] by simp
  let ?st2 = "?b\<lparr>consentGiven := True,
                localStorage := AList.update (consentStorageKey consent_config) (Text ''true'')
                                  (localStorage ?b)\<rparr>"
  have w: "?w = snd (initializeTracker consent_config example_host ?st2)"
    using example_fresh by (simp add: b giveConsent_working[OF wk] Let_def)
  have ni2: "\<not> isInitialized ?st2" using example_fresh by simp
  have cc2: "fst (checkConsent consent_config example_host ?st2)"
    using checkConsent_after_sentinel[OF wk, of consent_config ?b True] by simp
  have p: "pendingInitialization ?w"
    unfolding w using initializeTracker_run(6)[OF ni2 cc2] by simp
  from revokeConsent_then_giveConsent[of consent_config example_host ?w example_host, unfolded ck uu] p wk av
  show ?thesis by auto
qed

text \<open>
  C8, at a page whose storage holds the consent sentinel from an earlier visit, consent
  being required: the load initializes the tracker without being blocked, so the pending
  flag is not set. \<^verbatim>\<open>revokeConsent\<close> then removes both items from storage, clears the record
  and its accessors and marks the tracker uninitialized, as the claim says. But the
  \<^verbatim>\<open>giveConsent\<close> that follows starts no session: it records the consent, runs no
  initialization and issues no request; there is no record and the tracker stays
  uninitialized.
\<close>

theorem C8_give_after_revoke_starts_no_session:
  "isInitialized (snd (initializeTracker consent_config example_host example_consented_page))
   \<and> \<not> pendingInitialization (snd (initializeTracker consent_config example_host example_consented_page))
   \<and> map_of (localStorage (revokeConsent consent_config example_host
          (snd (initializeTracker consent_config example_host example_consented_page)))) STORAGE_KEY = None
   \<and> map_of (localStorage (revokeConsent consent_config example_host
          (snd (initializeTracker consent_config example_host example_consented_page)))) ''lmv_consent_given'' = None
   \<and> getSessionData (revokeConsent consent_config example_host
          (snd (initializeTracker consent_config example_host example_consented_page))) = None
   \<and> getSessionUUID (revokeConsent consent_config example_host
          (snd (initializeTracker consent_config example_host example_consented_page))) = None
   \<and> \<not> isInitialized (revokeConsent consent_config example_host
          (snd (initializeTracker consent_config example_host example_consented_page)))
   \<and> trackerData (giveConsent consent_config example_host
        (revokeConsent consent_config example_host
          (snd (initializeTracker consent_config example_host example_consented_page)))) = None
   \<and> \<not> isInitialized (giveConsent consent_config example_host
        (revokeConsent consent_config example_host
          (snd (initializeTracker consent_config example_host example_consented_page))))
   \<and> hasConsent (giveConsent consent_config example_host
        (revokeConsent consent_config example_host
          (snd (initializeTracker consent_config example_host example_consented_page))))
   \<and> requests (giveConsent consent_config example_host
        (revokeConsent consent_config example_host
          (snd (initializeTracker consent_config example_host example_consented_page))))
       = requests (snd (initializeTracker consent_config example_host example_consented_page))"
proof -
  let ?st1 = "snd (initializeTracker consent_config example_host example_consented_page)"
  have wk: "storage_mode example_host = Working" by (simp add: example_host_def)
  have ck: "consentStorageKey consent_config = ''lmv_consent_given''"
    by (simp add: consent_config_def default_config_def)
  have ni: "\<not> isInitialized example_consented_page"
    by (simp add: example_consented_page_def fresh_state_def)
  have cc: "fst (checkConsent consent_config example_host example_consented_page)"
    by (simp add: checkConsent_fst storedConsent_def example_host_def example_consented_page_def
          fresh_state_def consent_config_def default_config_def)
  have i: "isInitialized ?st1" using initializeTracker_run(4)[OF ni cc] .
  have p: "\<not> pendingInitialization ?st1"
    using initializeTracker_run(6)[OF ni cc]
    by (simp add: example_consented_page_def fresh_state_def)
  show ?thesis
    using i p wk
    by (simp add: giveConsent_working[OF wk] Let_def revokeConsent_fields hasConsent_def
          getSessionData_def getSessionUUID_def delete_conv' ck)
qed

subsection \<open>Link Decorator\<close>

lemma sp_replace_keys: "set (map fst (sp_replace k v q)) = set (map fst q)"
  by (induction q) auto

lemma sp_has_sp_set: "sp_has k (sp_set k' v q) = (k = k' \<or> sp_has k q)"
  by (auto simp: sp_has_def sp_set_def sp_replace_keys simp flip: set_map)

lemma sp_set_absent: "\<not> sp_has k q \<Longrightarrow> sp_set k v q = q @ [(k, v)]"
  by (simp add: sp_set_def)

lemma sp_has_filter: "sp_has k q = (filter (\<lambda>p. fst p = k) q \<noteq> [])"
  by (induction q) (auto simp: sp_has_def)

text \<open>Setting a name only where it is absent never makes a name occur twice.\<close>

lemma guarded_set_count:
  assumes "\<not> sp_has k acc" and "length (filter (\<lambda>p. fst p = j) acc) \<le> n" and "1 \<le> n"
  shows "length (filter (\<lambda>p. fst p = j) (sp_set k v acc)) \<le> n"
  using assms by (auto simp: sp_set_absent sp_has_filter)

lemma add_utm_params_has: "sp_has k q \<Longrightarrow> sp_has k (add_utm_params h d q)"
proof -
  have "sp_has k q \<Longrightarrow>
        sp_has k (fold (\<lambda>param acc.
             if truthy (get_prop d param) \<and> \<not> sp_has param acc
             then sp_set param (to_string h (get_prop d param)) acc
             else acc) ps q)" for ps
    by (induction ps arbitrary: q) (simp_all add: sp_has_sp_set)
  then show "sp_has k q \<Longrightarrow> sp_has k (add_utm_params h d q)"
    by (simp add: add_utm_params_def)
qed

lemma add_utm_params_count:
  assumes "length (filter (\<lambda>p. fst p = j) acc) \<le> n" and "1 \<le> n"
  shows "length (filter (\<lambda>p. fst p = j) (add_utm_params h d acc)) \<le> n"
proof -
  have "length (filter (\<lambda>p. fst p = j) acc) \<le> n \<Longrightarrow>
        length (filter (\<lambda>p. fst p = j) (fold (\<lambda>param acc.
             if truthy (get_prop d param) \<and> \<not> sp_has param acc
             then sp_set param (to_string h (get_prop d param)) acc
             else acc) ps acc)) \<le> n" for ps
  proof (induction ps arbitrary: acc)
    case Nil
    then show ?case by simp
  next
    case (Cons a ps)
    show ?case
    proof (cases "truthy (get_prop d a) \<and> \<not> sp_has a acc")
      case True
      then have "length (filter (\<lambda>p. fst p = j) (sp_set a (to_string h (get_prop d a)) acc)) \<le> n"
        using Cons.prems assms(2) by (intro guarded_set_count) simp_all
      from Cons.IH[OF this] True show ?thesis by simp
    next
      case False
      with Cons.IH[OF Cons.prems] show ?thesis by auto
    qed
  qed
  then show ?thesis using assms by (simp add: add_utm_params_def)
qed

lemma add_fbp_param_has: "sp_has k q \<Longrightarrow> sp_has k (add_fbp_param h q)"
  by (simp add: add_fbp_param_def sp_has_sp_set split: option.split)

lemma add_fbp_param_count:
  assumes "length (filter (\<lambda>p. fst p = j) acc) \<le> n" and "1 \<le> n"
  shows "length (filter (\<lambda>p. fst p = j) (add_fbp_param h acc)) \<le> n"
  using assms by (auto simp: add_fbp_param_def intro: guarded_set_count split: option.split)

lemma decorate_link_target_done:
  assumes "href_url l = Some u" and "hostname u = targetDomain cfg"
    and "sp_has ''uuid'' (searchParams u)"
  shows "decorate_link cfg h td l = (l, False)"
  using assms by (simp add: decorate_link_def)

lemma decorate_link_payment_done:
  assumes "href_url l = Some u" and "hostname u \<noteq> targetDomain cfg"
    and "hostname u = paymentDomain cfg"
    and "sp_has ''client_reference_id'' (searchParams u)"
  shows "decorate_link cfg h td l = (l, False)"
  using assms by (simp add: decorate_link_def)

text \<open>
  A link that the selector matches, to the payment domain and without a
  \<^verbatim>\<open>client_reference_id\<close>, gets one, whatever else its query holds (a \<^verbatim>\<open>uuid\<close> included).
\<close>

lemma decorate_link_payment_adds_reference:
  assumes "selected cfg l" and "href_url l = Some u"
    and "hostname u \<noteq> targetDomain cfg" and "hostname u = paymentDomain cfg"
    and "\<not> sp_has ''client_reference_id'' (searchParams u)"
  shows "decorate_link cfg h (Some d) l =
     (set_href h
        (u\<lparr>searchParams :=
             sp_set ''client_reference_id'' (to_string h (get_prop d ''uuid'')) (searchParams u)\<rparr>) l,
      True)"
  using assms by (simp add: decorate_link_def)

lemma decorate_link_again:
  "decorate_link cfg h td (fst (decorate_link cfg h td l)) = (fst (decorate_link cfg h td l), False)"
proof (cases "snd (decorate_link cfg h td l)")
  case False
  then have "fst (decorate_link cfg h td l) = l"
    by (auto simp: decorate_link_def split: option.splits if_splits)
  moreover have "decorate_link cfg h td l = (l, False)"
    using False calculation by (cases "decorate_link cfg h td l") simp
  ultimately show ?thesis by simp
next
  case True
  then obtain u d where u: "href_url l = Some u" and d: "td = Some d"
    by (auto simp: decorate_link_def split: option.splits if_splits)
  show ?thesis
  proof (cases "hostname u = targetDomain cfg")
    case t: True
    let ?u' = "u\<lparr>searchParams :=
                 add_fbp_param h (add_utm_params h d
                   (sp_set ''uuid'' (to_string h (get_prop d ''uuid'')) (searchParams u)))\<rparr>"
    have r: "fst (decorate_link cfg h td l) = set_href h ?u' l"
      using True u d t by (auto simp: decorate_link_def split: if_splits)
    have "sp_has ''uuid'' (searchParams ?u')"
      by (simp add: add_fbp_param_has add_utm_params_has sp_has_sp_set)
    then show ?thesis
      unfolding r using t
      by (intro decorate_link_target_done[where u = ?u']) (simp_all add: set_href_def)
  next
    case nt: False
    let ?u' = "u\<lparr>searchParams :=
                 sp_set ''client_reference_id'' (to_string h (get_prop d ''uuid'')) (searchParams u)\<rparr>"
    have p: "hostname u = paymentDomain cfg"
      using True u d nt by (auto simp: decorate_link_def split: if_splits)
    have r: "fst (decorate_link cfg h td l) = set_href h ?u' l"
      using True u d nt p by (auto simp: decorate_link_def split: if_splits)
    have "sp_has ''client_reference_id'' (searchParams ?u')"
      by (simp add: sp_has_sp_set)
    then show ?thesis
      unfolding r using nt p
      by (intro decorate_link_payment_done[where u = ?u']) (simp_all add: set_href_def)
  qed
qed

lemma decorateLinks_again:
  "decorateLinks cfg h (snd (decorateLinks cfg h st)) = (0, snd (decorateLinks cfg h st))"
proof (cases "enableLinkDecoration cfg")
  case False
  then show ?thesis by (simp add: decorateLinks_def)
next
  case True
  let ?st1 = "snd (decorateLinks cfg h st)"
  have l1: "links ?st1 = map (\<lambda>l. fst (decorate_link cfg h (trackerData st) l)) (links st)"
    and t1: "trackerData ?st1 = trackerData st"
    using True by (simp_all add: decorateLinks_snd)
  have m: "map (decorate_link cfg h (trackerData st)) (links ?st1)
             = map (\<lambda>l. (l, False)) (links ?st1)"
    unfolding l1 by (simp add: decorate_link_again)
  show ?thesis
    using True by (simp add: decorateLinks_def[of cfg h ?st1] Let_def t1 m comp_def)
qed

lemma decorate_link_count:
  assumes "href_url l = Some u" and "href_url (fst (decorate_link cfg h td l)) = Some u'"
  shows "hostname u' = hostname u
     \<and> length (filter (\<lambda>p. fst p = j) (searchParams u'))
         \<le> max 1 (length (filter (\<lambda>p. fst p = j) (searchParams u)))"
proof -
  let ?n = "max 1 (length (filter (\<lambda>p. fst p = j) (searchParams u)))"
  have base: "length (filter (\<lambda>p. fst p = j) (searchParams u)) \<le> ?n" and n: "1 \<le> ?n"
    by simp_all
  have target: "length (filter (\<lambda>p. fst p = j)
          (add_fbp_param h (add_utm_params h d (sp_set ''uuid'' v (searchParams u))))) \<le> ?n"
    if "\<not> sp_has ''uuid'' (searchParams u)" for d v
    by (intro add_fbp_param_count add_utm_params_count guarded_set_count that base n)
  have payment: "length (filter (\<lambda>p. fst p = j)
          (sp_set ''client_reference_id'' v (searchParams u))) \<le> ?n"
    if "\<not> sp_has ''client_reference_id'' (searchParams u)" for v
    by (intro guarded_set_count that base n)
  have "fst (decorate_link cfg h td l) = l
     \<or> (\<exists>d. \<not> sp_has ''uuid'' (searchParams u) \<and>
          fst (decorate_link cfg h td l) = set_href h
           (u\<lparr>searchParams := add_fbp_param h (add_utm_params h d
               (sp_set ''uuid'' (to_string h (get_prop d ''uuid'')) (searchParams u)))\<rparr>) l)
     \<or> (\<exists>d. \<not> sp_has ''client_reference_id'' (searchParams u) \<and>
          fst (decorate_link cfg h td l) = set_href h
           (u\<lparr>searchParams :=
               sp_set ''client_reference_id'' (to_string h (get_prop d ''uuid'')) (searchParams u)\<rparr>) l)"
    using assms(1) by (cases td) (auto simp: decorate_link_def)
  then consider (same) "fst (decorate_link cfg h td l) = l"
    | (tgt) d where "\<not> sp_has ''uuid'' (searchParams u)"
        "fst (decorate_link cfg h td l) = set_href h
           (u\<lparr>searchParams := add_fbp_param h (add_utm_params h d
               (sp_set ''uuid'' (to_string h (get_prop d ''uuid'')) (searchParams u)))\<rparr>) l"
    | (pay) d where "\<not> sp_has ''client_reference_id'' (searchParams u)"
        "fst (decorate_link cfg h td l) = set_href h
           (u\<lparr>searchParams :=
               sp_set ''client_reference_id'' (to_string h (get_prop d ''uuid'')) (searchParams u)\<rparr>) l"
    by blast
  then show ?thesis
  proof cases
    case same
    with assms have "u' = u" by simp
    then show ?thesis by simp
  next
    case tgt
    with assms(2) have "u' = u\<lparr>searchParams := add_fbp_param h (add_utm_params h d
               (sp_set ''uuid'' (to_string h (get_prop d ''uuid'')) (searchParams u)))\<rparr>"
      by (simp add: set_href_def)
    then show ?thesis using target[OF tgt(1)] by simp
  next
    case pay
    with assms(2) have "u' = u\<lparr>searchParams :=
               sp_set ''client_reference_id'' (to_string h (get_prop d ''uuid'')) (searchParams u)\<rparr>"
      by (simp add: set_href_def)
    then show ?thesis using payment[OF pay(1)] by simp
  qed
qed

text \<open>
  C3, as the code has it. Whatever the record in memory and the cookie are, Link Decorator
  leaves untouched a link to the target domain whose query has the \<^verbatim>\<open>uuid\<close> key, and a
  link to the payment domain whose query has the \<^verbatim>\<open>client_reference_id\<close> key. Running
  \<^verbatim>\<open>decorateLinks\<close> a second time on the document the first run left counts 0 links and
  changes nothing. A run keeps the host of every link and never raises the number of
  pairs of any name in its query above one (or above what it was).
\<close>

theorem C3_link_decoration_idempotent:
  "(href_url l = Some u \<and> hostname u = targetDomain cfg \<and> sp_has ''uuid'' (searchParams u)
      \<longrightarrow> decorate_link cfg h td l = (l, False))
   \<and> (href_url l = Some u \<and> hostname u \<noteq> targetDomain cfg \<and> hostname u = paymentDomain cfg
        \<and> sp_has ''client_reference_id'' (searchParams u)
      \<longrightarrow> decorate_link cfg h td l = (l, False))
   \<and> decorateLinks cfg h (snd (decorateLinks cfg h st)) = (0, snd (decorateLinks cfg h st))
   \<and> (href_url l = Some u \<and> href_url (fst (decorate_link cfg h td l)) = Some u'
      \<longrightarrow> hostname u' = hostname u
          \<and> (\<forall>k. length (filter (\<lambda>p. fst p = k) (searchParams u'))
                 \<le> max 1 (length (filter (\<lambda>p. fst p = k) (searchParams u)))))"
  using decorate_link_target_done[of l u cfg h td] decorate_link_payment_done[of l u cfg h td]
    decorateLinks_again[of cfg h st] decorate_link_count[of l u cfg h td u']
  by blast

lemma example_selected:
  "selected default_config example_target_link" "selected default_config example_payment_link"
  by (simp_all add: selected_def default_config_def example_target_link_def
        example_payment_link_def)

lemma example_no_cookie: "getFbpCookie example_host = None"
  by (simp add: getFbpCookie_def example_host_def trim_def)

lemma example_decorate_target:
  "decorate_link default_config example_host (Some example_stored) example_target_link =
     (set_href example_host
        \<lparr> hostname = ''app.lamainverte.ca'',
          searchParams = [(''uuid'', ''old-id''), (''utm_source'', ''old''), (''utm_medium'', ''m'')],
          url_other = ''https /signup'' \<rparr> example_target_link, True)"
proof -
  have g: "get_prop example_stored ''uuid'' = Some (JStr ''old-id'')"
    "get_prop example_stored ''utm_source'' = Some (JStr ''old'')"
    "get_prop example_stored ''utm_medium'' = Some (JStr ''m'')"
    "get_prop example_stored ''utm_campaign'' = None"
    "get_prop example_stored ''utm_term'' = None"
    "get_prop example_stored ''utm_content'' = None"
    "get_prop example_stored ''fbclid'' = None"
    "get_prop example_stored ''gclid'' = None"
    "get_prop example_stored ''fbp'' = None"
    by (simp_all add: example_stored_def get_prop_def)
  have u: "href_url example_target_link =
      Some \<lparr> hostname = ''app.lamainverte.ca'', searchParams = [], url_other = ''https /signup'' \<rparr>"
    by (simp add: example_target_link_def)
  have t: "targetDomain default_config = ''app.lamainverte.ca''"
    by (simp add: default_config_def)
  have q: "add_utm_params example_host example_stored [(''uuid'', ''old-id'')]
      = [(''uuid'', ''old-id''), (''utm_source'', ''old''), (''utm_medium'', ''m'')]"
    by (simp add: add_utm_params_def UTM_FIELDS_def g sp_has_def sp_set_def)
  show ?thesis
    by (simp add: decorate_link_def example_selected u t g sp_has_def sp_set_def q
          add_fbp_param_def example_no_cookie)
qed

lemma example_decorate_payment:
  "decorate_link default_config example_host (Some example_stored) example_payment_link =
     (set_href example_host
        (example_payment_url\<lparr>searchParams := [(''uuid'', ''abc''), (''client_reference_id'', ''old-id'')]\<rparr>)
        example_payment_link, True)"
proof -
  have g: "get_prop example_stored ''uuid'' = Some (JStr ''old-id'')"
    by (simp add: example_stored_def get_prop_def)
  have u: "href_url example_payment_link = Some example_payment_url"
    by (simp add: example_payment_link_def)
  have t: "targetDomain default_config = ''app.lamainverte.ca''"
    "paymentDomain default_config = ''paiement.lamainverte.ca''"
    by (simp_all add: default_config_def)
  have p: "hostname example_payment_url = ''paiement.lamainverte.ca''"
    "searchParams example_payment_url = [(''uuid'', ''abc'')]"
    by (simp_all add: example_payment_url_def)
  show ?thesis
    by (simp add: decorate_link_def example_selected u t p g sp_has_def sp_set_def)
qed

text \<open>
  The example document with the stored record in memory: the first run decorates both
  links, the second none.
\<close>

theorem C3_link_decoration_idempotent_witness:
  "fst (decorateLinks default_config example_host (example_document\<lparr>trackerData := Some example_stored\<rparr>)) = 2
   \<and> map href_url (links (snd (decorateLinks default_config example_host
         (example_document\<lparr>trackerData := Some example_stored\<rparr>))))
       = [Some \<lparr> hostname = ''app.lamainverte.ca'',
                  searchParams = [(''uuid'', ''old-id''), (''utm_source'', ''old''), (''utm_medium'', ''m'')],
                  url_other = ''https /signup'' \<rparr>,
          Some (example_payment_url\<lparr>searchParams := [(''uuid'', ''abc''), (''client_reference_id'', ''old-id'')]\<rparr>)]
   \<and> decorateLinks default_config example_host
        (snd (decorateLinks default_config example_host
           (example_document\<lparr>trackerData := Some example_stored\<rparr>)))
       = (0, snd (decorateLinks default_config example_host
           (example_document\<lparr>trackerData := Some example_stored\<rparr>)))"
proof -
  let ?S = "example_document\<lparr>trackerData := Some example_stored\<rparr>"
  have e: "enableLinkDecoration default_config" by (simp add: default_config_def)
  have l: "links ?S = [example_target_link, example_payment_link]"
    "trackerData ?S = Some example_stored"
    by (simp_all add: example_document_def fresh_state_def)
  have first: "fst (decorateLinks default_config example_host ?S) = 2
     \<and> map href_url (links (snd (decorateLinks default_config example_host ?S)))
       = [Some \<lparr> hostname = ''app.lamainverte.ca'',
                  searchParams = [(''uuid'', ''old-id''), (''utm_source'', ''old''), (''utm_medium'', ''m'')],
                  url_other = ''https /signup'' \<rparr>,
          Some (example_payment_url\<lparr>searchParams := [(''uuid'', ''abc''), (''client_reference_id'', ''old-id'')]\<rparr>)]"
    by (simp add: decorateLinks_def e l Let_def example_decorate_target example_decorate_payment
          set_href_def)
  from C3_link_decoration_idempotent[of example_target_link
      "\<lparr> hostname = ''app.lamainverte.ca'', searchParams = [], url_other = ''https /signup'' \<rparr>"
      default_config example_host "Some example_stored" ?S]
  have "decorateLinks default_config example_host (snd (decorateLinks default_config example_host ?S))
       = (0, snd (decorateLinks default_config example_host ?S))"
    by blast
  with first show ?thesis by blast
qed

text \<open>
  Against C3 as stated: a link to the payment domain whose query already has the
  session-identifier key \<^verbatim>\<open>uuid\<close> is modified, since for that domain the key tested is
  \<^verbatim>\<open>client_reference_id\<close>.
\<close>

theorem C3_counterexample:
  "href_url example_payment_link = Some example_payment_url
   \<and> sp_has ''uuid'' (searchParams example_payment_url)
   \<and> href_url (fst (decorate_link default_config example_host (Some example_stored) example_payment_link))
       = Some (example_payment_url\<lparr>searchParams := [(''uuid'', ''abc''), (''client_reference_id'', ''old-id'')]\<rparr>)
   \<and> fst (decorate_link default_config example_host (Some example_stored) example_payment_link)
       \<noteq> example_payment_link"
proof -
  have u: "href_url example_payment_link = Some example_payment_url"
    by (simp add: example_payment_link_def)
  have s: "sp_has ''uuid'' (searchParams example_payment_url)"
    by (simp add: example_payment_url_def sp_has_def)
  have r: "href_url (fst (decorate_link default_config example_host (Some example_stored) example_payment_link))
       = Some (example_payment_url\<lparr>searchParams := [(''uuid'', ''abc''), (''client_reference_id'', ''old-id'')]\<rparr>)"
    by (simp add: example_decorate_payment set_href_def)
  have "Some (example_payment_url\<lparr>searchParams := [(''uuid'', ''abc''), (''client_reference_id'', ''old-id'')]\<rparr>)
          \<noteq> href_url example_payment_link"
    by (simp add: u example_payment_url_def)
  with r have "fst (decorate_link default_config example_host (Some example_stored) example_payment_link)
       \<noteq> example_payment_link"
    by metis
  with u s r show ?thesis by blast
qed

subsection \<open>Expired sessions in general\<close>

text \<open>
  What the example shows holds for every valid stored record that is older than the
  timeout: each property of the stored record that the URL does not supply, the
  identifier among them, is in the record the load produces; so are \<open>created_at\<close>,
  \<open>last_updated\<close> and, when stored, \<open>page_views\<close>, none of which a URL can supply.
\<close>

lemma expired_session_keeps_stored_record:
  assumes gs: "getStoredData h st = Some d" and v: "isValidTrackerData (Some d)"
    and lu: "get_prop d ''last_updated'' = Some (JNum lu)"
    and old: "now h - lu > SESSION_TIMEOUT_MS cfg"
    and dk: "get_prop d k = Some x"
    and nk: "get_prop (extractUTMsFromURL h) k = None"
    and nf: "k \<noteq> ''fbp''"
  shows "get_prop (loaded_record cfg h st) k = Some x"
proof -
  have dd: "distinct (map fst d)" using gs by (rule getStoredData_distinct)
  have "get_prop (new_session h (Some d) (extractUTMsFromURL h)) k = Some x"
    using v dk nk dd by (simp add: get_new_session extract_distinct)
  then show ?thesis
    using nf by (simp add: loaded_record_def gs session_record_expired[OF lu old] capture_fbp_other)
qed

lemma expired_session_keeps_identifier:
  assumes "getStoredData h st = Some d" and "isValidTrackerData (Some d)"
    and "get_prop d ''last_updated'' = Some (JNum lu)"
    and "now h - lu > SESSION_TIMEOUT_MS cfg"
  shows "get_prop (loaded_record cfg h st) ''uuid'' = get_prop d ''uuid''"
    and "get_prop (loaded_record cfg h st) ''created_at'' = get_prop d ''created_at''"
    and "get_prop (loaded_record cfg h st) ''last_updated'' = Some (JNum lu)"
proof -
  have "truthy (get_prop d ''uuid'')" and "truthy (get_prop d ''created_at'')"
    using assms(2) by (simp_all add: isValidTrackerData_def)
  then obtain a b where a: "get_prop d ''uuid'' = Some a" and b: "get_prop d ''created_at'' = Some b"
    by (cases "get_prop d ''uuid''"; cases "get_prop d ''created_at''") simp_all
  have n: "get_prop (extractUTMsFromURL h) ''uuid'' = None"
    "get_prop (extractUTMsFromURL h) ''created_at'' = None"
    "get_prop (extractUTMsFromURL h) ''last_updated'' = None"
    by (simp_all add: extract_keys UTM_FIELDS_def)
  show "get_prop (loaded_record cfg h st) ''uuid'' = get_prop d ''uuid''"
    using expired_session_keeps_stored_record[OF assms a n(1)] a by simp
  show "get_prop (loaded_record cfg h st) ''created_at'' = get_prop d ''created_at''"
    using expired_session_keeps_stored_record[OF assms b n(2)] b by simp
  show "get_prop (loaded_record cfg h st) ''last_updated'' = Some (JNum lu)"
    using expired_session_keeps_stored_record[OF assms assms(3) n(3)] by simp
qed

end
